theory Spec2Isabelle
  imports Complex_Main
begin

section \<open>Stream receiver (live\_mocap\_tool/data\_stream.py)\<close>

text \<open>
  Python floats are modelled as \<^typ>\<open>real\<close> throughout. The delays of the reconnect
  loop are 1.0, 2.0, 4.0 and 8.0, which binary floating point represents exactly.
\<close>

datatype status = DISCONNECTED | CONNECTING | CONNECTED | RECONNECTING | ERROR

datatype queue_error = Full | Empty

subsection \<open>Connection loop of \<open>_run_socket_listener\<close>\<close>

text \<open>
  The state the connection loop reads and writes: the receiver's status, the local
  \<open>reconnect_delay\<close>, whether \<open>sock\<close> holds a socket, and the history of the
  arguments of \<open>time.sleep\<close> in that loop.
\<close>

record conn =
  status :: status
  reconnect_delay :: real
  sock :: bool
  slept :: "real list"

text \<open>Line 92, and the state of a fresh receiver (\<open>__init__\<close>).\<close>

definition conn_init :: conn where
  "conn_init = \<lparr>status = DISCONNECTED, reconnect_delay = 1, sock = False, slept = []\<rparr>"

text \<open>
  \<open>_connect_socket\<close>, lines 64 to 86. The argument says whether \<open>sock.connect\<close>
  succeeded; the status goes through CONNECTING to CONNECTED or RECONNECTING.
\<close>

definition connect_socket :: "bool \<Rightarrow> conn \<Rightarrow> conn" where
  "connect_socket ok c =
     (let c1 = c\<lparr>status := CONNECTING\<rparr> in
      if ok then c1\<lparr>status := CONNECTED, sock := True\<rparr>
      else c1\<lparr>status := RECONNECTING, sock := False\<rparr>)"

text \<open>One pass through the body of \<open>while self.running and not sock\<close>, lines 98 to 106.\<close>

definition connect_pass :: "bool \<Rightarrow> conn \<Rightarrow> conn" where
  "connect_pass ok c =
     (let c1 = (if status c \<noteq> CONNECTING then c\<lparr>status := RECONNECTING\<rparr> else c);
          c2 = connect_socket ok c1
      in if \<not> sock c2
         then c2\<lparr>slept := slept c2 @ [reconnect_delay c2],
                 reconnect_delay := min (reconnect_delay c2 * 2) 8\<rparr>
         else c2\<lparr>reconnect_delay := 1\<rparr>)"

text \<open>
  The loop of lines 97 to 106, driven by the outcomes of the successive connection
  attempts. It stops at the first socket; the end of the list stands for \<open>self.running\<close>
  turning false.
\<close>

fun connect_loop :: "bool list \<Rightarrow> conn \<Rightarrow> conn" where
  "connect_loop [] c = c"
| "connect_loop (ok # oks) c = (if sock c then c else connect_loop oks (connect_pass ok c))"

text \<open>Line 96: the outer loop comes back to the connection loop with \<open>sock = None\<close>.\<close>

definition next_round :: "conn \<Rightarrow> conn" where
  "next_round c = c\<lparr>sock := False\<rparr>"

subsection \<open>Facts about the connection loop\<close>

lemma connect_pass_fail:
  "connect_pass False c =
     c\<lparr>status := RECONNECTING, sock := False, slept := slept c @ [reconnect_delay c],
       reconnect_delay := min (reconnect_delay c * 2) 8\<rparr>"
  by (simp add: connect_pass_def connect_socket_def Let_def)

lemma connect_pass_ok:
  "connect_pass True c = c\<lparr>status := CONNECTED, sock := True, reconnect_delay := 1\<rparr>"
  by (simp add: connect_pass_def connect_socket_def Let_def)

lemma min_pow2_step: "min (min ((2::real) ^ k) 8 * 2) 8 = min (2 ^ Suc k) 8"
  by (simp add: min_def)

lemma failures_from:
  "\<not> sock c \<Longrightarrow> reconnect_delay c = min (2 ^ k) 8 \<Longrightarrow>
   slept (connect_loop (replicate n False) c) = slept c @ map (\<lambda>i. min (2 ^ i) 8) [k..<k + n] \<and>
   reconnect_delay (connect_loop (replicate n False) c) = min (2 ^ (k + n)) 8 \<and>
   \<not> sock (connect_loop (replicate n False) c)"
proof (induction n arbitrary: c k)
  case 0
  then show ?case by simp
next
  case (Suc n)
  let ?c = "connect_pass False c"
  have s: "\<not> sock ?c" by (simp add: connect_pass_fail)
  have d: "reconnect_delay ?c = min (2 ^ Suc k) 8"
    using Suc.prems(2) by (simp add: connect_pass_fail min_pow2_step del: power_Suc)
  have sl: "slept ?c = slept c @ [min (2 ^ k) 8]"
    using Suc.prems(2) by (simp add: connect_pass_fail)
  have up: "[k..<Suc (k + n)] = k # [Suc k..<Suc (k + n)]"
    by (simp add: upt_conv_Cons)
  from Suc.IH [OF s d] Suc.prems(1) sl show ?case
    by (simp add: up del: upt_Suc power_Suc)
qed

lemma failures_from_one:
  "\<not> sock c \<Longrightarrow> reconnect_delay c = 1 \<Longrightarrow>
   slept (connect_loop (replicate n False) c) = slept c @ map (\<lambda>i. min (2 ^ i) 8) [0..<n]"
  using failures_from [of c 0 n] by simp

text \<open>
  C7. In every run of \<open>n\<close> consecutive failed attempts, whether it starts the listener or
  follows a successful connect, the delays slept are \<open>min (2^i) 8\<close> for \<open>i = 0, ..., n - 1\<close>:
  1 first, doubled after each failure, capped at 8. A successful connect sets the delay
  to 1 whatever it was.
\<close>

theorem backoff_doubles_capped_resets:
  "slept (connect_loop (replicate n False) conn_init) = map (\<lambda>i. min (2 ^ i) 8) [0..<n] \<and>
   slept (connect_loop (replicate n False) (next_round (connect_pass True c)))
     = slept c @ map (\<lambda>i. min (2 ^ i) 8) [0..<n] \<and>
   reconnect_delay (connect_pass True c) = 1 \<and>
   list_all (\<lambda>d. 1 \<le> d \<and> d \<le> 8) (map (\<lambda>i. min ((2::real) ^ i) 8) [0..<n])"
proof -
  have a: "slept (connect_loop (replicate n False) conn_init) = map (\<lambda>i. min (2 ^ i) 8) [0..<n]"
    using failures_from_one [of conn_init n] by (simp add: conn_init_def)
  have b: "slept (connect_loop (replicate n False) (next_round (connect_pass True c)))
     = slept c @ map (\<lambda>i. min (2 ^ i) 8) [0..<n]"
    using failures_from_one [of "next_round (connect_pass True c)" n]
    by (simp add: next_round_def connect_pass_ok)
  have c: "reconnect_delay (connect_pass True c) = 1"
    by (simp add: connect_pass_ok)
  have d: "list_all (\<lambda>d. 1 \<le> d \<and> d \<le> 8) (map (\<lambda>i. min ((2::real) ^ i) 8) [0..<n])"
    by (auto simp: list_all_iff min_def)
  from a b c d show ?thesis by blast
qed

text \<open>Five failures in a row after a success that followed a delay of 4: 1, 2, 4, 8, 8.\<close>

theorem backoff_doubles_capped_resets_witness:
  "slept (connect_loop (replicate 5 False) conn_init) = [1, 2, 4, 8, 8] \<and>
   slept (connect_loop (replicate 5 False)
       (next_round (connect_pass True (conn_init\<lparr>reconnect_delay := 4, slept := [1, 2]\<rparr>))))
     = [1, 2, 1, 2, 4, 8, 8] \<and>
   reconnect_delay (connect_pass True (conn_init\<lparr>reconnect_delay := 4, slept := [1, 2]\<rparr>)) = 1"
  using backoff_doubles_capped_resets [of 5 "conn_init\<lparr>reconnect_delay := 4, slept := [1, 2]\<rparr>"]
  by (simp add: upt_rec conn_init_def)

subsection \<open>The handoff queue\<close>


text \<open>
  \<open>queue.Queue(maxsize)\<close> as the list of its pending items, oldest first. A
  \<open>maxsize\<close> of zero or less means no bound, so such a queue is never full.
\<close>

definition full :: "int \<Rightarrow> 'f list \<Rightarrow> bool" where
  "full maxsize q = (0 < maxsize \<and> maxsize \<le> int (length q))"

text \<open>
  \<open>get_nowait\<close> raises \<open>Empty\<close> on an empty queue, \<open>put_nowait\<close> raises \<open>Full\<close> on a full one.
\<close>

definition get_nowait :: "'f list \<Rightarrow> queue_error + ('f \<times> 'f list)" where
  "get_nowait q = (case q of [] \<Rightarrow> Inl Empty | x # xs \<Rightarrow> Inr (x, xs))"

definition put_nowait :: "int \<Rightarrow> 'f list \<Rightarrow> 'f \<Rightarrow> queue_error + 'f list" where
  "put_nowait maxsize q item = (if full maxsize q then Inl Full else Inr (q @ [item]))"

text \<open>
  Lines 136 to 139: drop the oldest pending frame when the queue is full, then put.
\<close>

definition enqueue :: "int \<Rightarrow> 'f list \<Rightarrow> 'f \<Rightarrow> queue_error + 'f list" where
  "enqueue maxsize q mocap_frame =
     (if full maxsize q
      then (case get_nowait q of
              Inl e \<Rightarrow> Inl e
            | Inr (old, q1) \<Rightarrow> put_nowait maxsize q1 mocap_frame)
      else put_nowait maxsize q mocap_frame)"

text \<open>
  Successive frames enqueued by the listener with no read by the consumer in between. An
  exception leaves the reception loop (line 153), so it ends the sequence.
\<close>

fun enqueue_all :: "int \<Rightarrow> 'f list \<Rightarrow> 'f list \<Rightarrow> queue_error + 'f list" where
  "enqueue_all maxsize q [] = Inr q"
| "enqueue_all maxsize q (f # fs) =
     (case enqueue maxsize q f of Inl e \<Rightarrow> Inl e | Inr q1 \<Rightarrow> enqueue_all maxsize q1 fs)"

text \<open>
  \<open>get_latest_data\<close>, lines 167 to 175: \<open>get_nowait\<close> until \<open>Empty\<close>, returning the
  last item taken, or \<open>None\<close> when there was none, and the queue as it is left.
\<close>

lemma get_nowait_shorter: "get_nowait q = Inr (x, q1) \<Longrightarrow> length q1 < length q"
  by (cases q) (auto simp: get_nowait_def)

function drain :: "'f option \<Rightarrow> 'f list \<Rightarrow> 'f option \<times> 'f list" where
  "drain latest q =
     (case get_nowait q of
        Inl e \<Rightarrow> (latest, q)
      | Inr (x, q1) \<Rightarrow> drain (Some x) q1)"
  by pat_completeness auto
termination
  by (relation "measure (\<lambda>(latest, q). length q)") (auto simp: get_nowait_shorter)

definition get_latest_data :: "'f list \<Rightarrow> 'f option \<times> 'f list" where
  "get_latest_data q = drain None q"

lemma drain_Nil: "drain latest [] = (latest, [])"
  by (simp add: get_nowait_def)

lemma drain_Cons: "drain latest (x # q) = drain (Some x) q"
  by (simp add: get_nowait_def)

lemma drain_nonempty: "q \<noteq> [] \<Longrightarrow> drain latest q = (Some (last q), [])"
  by (induction q arbitrary: latest) (auto simp: drain_Nil drain_Cons simp del: drain.simps)

lemma enqueue_one: "length q \<le> 1 \<Longrightarrow> enqueue 1 q f = Inr [f]"
  by (cases q) (auto simp: enqueue_def full_def get_nowait_def put_nowait_def)

lemma enqueue_all_one:
  "length q \<le> 1 \<Longrightarrow> fs \<noteq> [] \<Longrightarrow> enqueue_all 1 q fs = Inr [last fs]"
proof (induction fs arbitrary: q)
  case Nil
  then show ?case by simp
next
  case (Cons f fs)
  show ?case
  proof (cases fs)
    case Nil
    with Cons.prems show ?thesis by (simp add: enqueue_one)
  next
    case (Cons g gs)
    with Cons.IH [of "[f]"] Cons.prems show ?thesis by (simp add: enqueue_one)
  qed
qed

text \<open>
  C6. With the queue of size one that the receiver is built with, enqueuing any
  non-empty sequence of frames never raises \<open>Full\<close> (the producer is not blocked and does
  not fail), leaves at most one pending frame, and the accessor then returns the newest
  frame and, called again, \<open>None\<close>.
\<close>

theorem handoff_latest_wins:
  "length q \<le> 1 \<Longrightarrow> fs \<noteq> [] \<Longrightarrow>
   (\<exists>q1. enqueue_all 1 q fs = Inr q1 \<and> length q1 \<le> 1 \<and>
      get_latest_data q1 = (Some (last fs), []) \<and>
      get_latest_data (snd (get_latest_data q1)) = (None, []))"
  by (simp add: enqueue_all_one get_latest_data_def drain_Nil drain_Cons del: drain.simps)

text \<open>
  Three frames enqueued over a pending one.
\<close>

theorem handoff_latest_wins_witness:
  "length ([0::nat]) \<le> 1 \<and> [1, 2, 3::nat] \<noteq> [] \<and>
   enqueue_all 1 [0::nat] [1, 2, 3] = Inr [3] \<and>
   get_latest_data [3::nat] = (Some 3, []) \<and>
   get_latest_data (snd (get_latest_data [3::nat])) = (None, [])"
  using handoff_latest_wins [of "[0::nat]" "[1, 2, 3]"]
  by (simp add: enqueue_def full_def get_nowait_def put_nowait_def get_latest_data_def)

subsection \<open>Framing of the received text\<close>

text \<open>
  The reception loop keeps the text received so far in \<open>buffer\<close>. The two uses of
  \<open>split\<close>: \<open>buffer.split('\n', 1)\<close> where the buffer holds a newline (line 128), and
  \<open>buffer.split('\n', 1)[-1]\<close> (line 144), which is the whole buffer when it holds none.
\<close>

definition newline :: char where
  "newline = CHR 0x0A"

definition split1 :: "string \<Rightarrow> string \<times> string" where
  "split1 s = (takeWhile (\<lambda>c. c \<noteq> newline) s, tl (dropWhile (\<lambda>c. c \<noteq> newline) s))"

definition split_last :: "string \<Rightarrow> string" where
  "split_last s = (if newline \<in> set s then snd (split1 s) else s)"

text \<open>
  \<open>not mocap_line.strip()\<close>: the line holds white space only. The characters are those
  Python's \<open>str.strip\<close> removes among the code points below 256.
\<close>

definition isspace :: "char \<Rightarrow> bool" where
  "isspace c = (c \<in> {CHR 0x09, CHR 0x0A, CHR 0x0B, CHR 0x0C, CHR 0x0D,
                       CHR 0x1C, CHR 0x1D, CHR 0x1E, CHR 0x1F, CHR 0x20, CHR 0x85, CHR 0xA0})"

definition strip_empty :: "string \<Rightarrow> bool" where
  "strip_empty s = list_all isspace s"

text \<open>
  The state of the reception loop: the buffer and the queue, with the history of the
  frames put into the queue and of the lines reported as invalid JSON (line 142 prints
  the first 50 characters).
\<close>

record 'f rx =
  buffer :: string
  data_queue :: "'f list"
  put_log :: "'f list"
  warn_log :: "string list"

lemma split1_shorter: "newline \<in> set s \<Longrightarrow> length (snd (split1 s)) < length s"
proof -
  assume h: "newline \<in> set s"
  have "length (dropWhile (\<lambda>c. c \<noteq> newline) s) \<le> length s"
    by (rule length_dropWhile_le)
  moreover have "dropWhile (\<lambda>c. c \<noteq> newline) s \<noteq> []"
    using h by (auto simp: dropWhile_eq_Nil_conv)
  ultimately show ?thesis
    by (cases "dropWhile (\<lambda>c. c \<noteq> newline) s") (auto simp: split1_def)
qed

lemma split_last_le: "length (split_last s) \<le> length s"
  using split1_shorter [of s] by (auto simp: split_last_def)

text \<open>
  The loop of lines 127 to 144. \<open>loads\<close> stands for \<open>json.loads\<close>, \<open>None\<close> for its
  \<open>JSONDecodeError\<close>. An exception of the queue is not caught inside the loop.
\<close>

function process_buffer ::
  "(string \<Rightarrow> 'f option) \<Rightarrow> int \<Rightarrow> 'f rx \<Rightarrow> queue_error + 'f rx" where
  "process_buffer loads maxsize s =
     (if newline \<in> set (buffer s) then
        (let mocap_line = fst (split1 (buffer s));
             s1 = s\<lparr>buffer := snd (split1 (buffer s))\<rparr>
         in if strip_empty mocap_line then process_buffer loads maxsize s1
            else (case loads mocap_line of
                    Some mocap_frame \<Rightarrow>
                      (case enqueue maxsize (data_queue s1) mocap_frame of
                         Inl e \<Rightarrow> Inl e
                       | Inr q \<Rightarrow>
                           process_buffer loads maxsize
                             (s1\<lparr>data_queue := q, put_log := put_log s1 @ [mocap_frame]\<rparr>))
                  | None \<Rightarrow>
                      process_buffer loads maxsize
                        (s1\<lparr>warn_log := warn_log s1 @ [take 50 mocap_line],
                            buffer := split_last (buffer s1)\<rparr>)))
      else Inr s)"
  by pat_completeness auto
termination
  by (relation "measure (\<lambda>(loads, maxsize, s). length (buffer s))")
     (auto simp: split1_shorter intro: le_less_trans [OF split_last_le split1_shorter])

text \<open>
  Lines 124 to 144 for a non-empty chunk: append it to the buffer, then run the loop.
\<close>

definition on_recv ::
  "(string \<Rightarrow> 'f option) \<Rightarrow> int \<Rightarrow> string \<Rightarrow> 'f rx \<Rightarrow> queue_error + 'f rx" where
  "on_recv loads maxsize chunk s = process_buffer loads maxsize (s\<lparr>buffer := buffer s @ chunk\<rparr>)"

lemma split1_at_newline:
  "newline \<notin> set l \<Longrightarrow> split1 (l @ newline # r) = (l, r)"
  by (induction l) (auto simp: split1_def)

lemma process_buffer_done:
  "newline \<notin> set (buffer s) \<Longrightarrow> process_buffer loads maxsize s = Inr s"
  by simp

lemma process_buffer_valid:
  assumes "buffer s = l @ newline # r" "newline \<notin> set l" "\<not> strip_empty l"
    and "loads l = Some f" "enqueue maxsize (data_queue s) f = Inr q"
  shows "process_buffer loads maxsize s =
         process_buffer loads maxsize (s\<lparr>buffer := r, data_queue := q, put_log := put_log s @ [f]\<rparr>)"
  using assms by (subst process_buffer.simps) (simp add: split1_at_newline Let_def)

lemma process_buffer_invalid:
  assumes "buffer s = l @ newline # r" "newline \<notin> set l" "\<not> strip_empty l"
    and "loads l = None"
  shows "process_buffer loads maxsize s =
         process_buffer loads maxsize
           (s\<lparr>buffer := split_last r, warn_log := warn_log s @ [take 50 l]\<rparr>)"
  using assms by (subst process_buffer.simps) (simp add: split1_at_newline Let_def)

lemma split_last_line: "newline \<notin> set l \<Longrightarrow> split_last (l @ [newline]) = []"
  using split1_at_newline [of l "[]"] by (simp add: split_last_def)

text \<open>
  C1. When a valid line, a malformed line and a second valid line arrive in one chunk,
  the first frame is put into the queue, one decode failure is reported, and the second
  valid line is consumed from the buffer without ever being decoded: line 144 splits the
  buffer again although line 128 has already removed the malformed line.
\<close>

theorem malformed_line_drops_next_line:
  assumes "newline \<notin> set l1" "newline \<notin> set l2" "newline \<notin> set l3"
    and "\<not> strip_empty l1" "\<not> strip_empty l2" "\<not> strip_empty l3"
    and "loads l1 = Some f1" "loads l2 = None" "loads l3 = Some f3"
    and "buffer s = []" "length (data_queue s) \<le> 1"
  shows "on_recv loads 1 (l1 @ [newline] @ l2 @ [newline] @ l3 @ [newline]) s =
         Inr (s\<lparr>buffer := [], data_queue := [f1], put_log := put_log s @ [f1],
                warn_log := warn_log s @ [take 50 l2]\<rparr>)"
proof -
  let ?s0 = "s\<lparr>buffer := l1 @ newline # (l2 @ newline # (l3 @ [newline]))\<rparr>"
  let ?s1 = "?s0\<lparr>buffer := l2 @ newline # (l3 @ [newline]), data_queue := [f1],
                 put_log := put_log ?s0 @ [f1]\<rparr>"
  let ?s2 = "?s1\<lparr>buffer := split_last (l3 @ [newline]),
                 warn_log := warn_log ?s1 @ [take 50 l2]\<rparr>"
  have e: "enqueue 1 (data_queue ?s0) f1 = Inr [f1]"
    using assms(11) by (simp add: enqueue_one)
  have a: "process_buffer loads 1 ?s0 = process_buffer loads 1 ?s1"
    using process_buffer_valid
      [of ?s0 l1 "l2 @ newline # (l3 @ [newline])" loads f1 1 "[f1]", OF _ assms(1) assms(4) assms(7) e]
    by simp
  have b: "process_buffer loads 1 ?s1 = process_buffer loads 1 ?s2"
    using process_buffer_invalid
      [of ?s1 l2 "l3 @ [newline]" loads 1, OF _ assms(2) assms(5) assms(8)]
    by simp
  have c: "process_buffer loads 1 ?s2 = Inr ?s2"
    by (rule process_buffer_done) (simp add: split_last_line assms(3))
  have "on_recv loads 1 (l1 @ [newline] @ l2 @ [newline] @ l3 @ [newline]) s
          = process_buffer loads 1 ?s0"
    using assms(10) by (simp add: on_recv_def)
  with a b c show ?thesis
    by (simp add: split_last_line assms(3))
qed

text \<open>
  The chunk \<open>{}\n x\n []\n\<close> (without the spaces), on a fresh reception loop.
\<close>

theorem malformed_line_drops_next_line_witness:
  "on_recv (\<lambda>l. if l = ''{}'' then Some (1::nat) else if l = ''[]'' then Some 2 else None) 1
     (''{}'' @ [newline] @ ''x'' @ [newline] @ ''[]'' @ [newline])
     \<lparr>buffer = [], data_queue = [], put_log = [], warn_log = []\<rparr>
   = Inr \<lparr>buffer = [], data_queue = [1], put_log = [1], warn_log = [''x'']\<rparr>"
  using malformed_line_drops_next_line
    [of "''{}''" "''x''" "''[]''"
        "\<lambda>l. if l = ''{}'' then Some (1::nat) else if l = ''[]'' then Some 2 else None" 1 2
        "\<lparr>buffer = [], data_queue = [], put_log = [], warn_log = []\<rparr>"]
  by (simp add: newline_def strip_empty_def isspace_def)



section \<open>Retargeting (live\_mocap\_tool/mocap\_logic.py)\<close>

text \<open>
  The exceptions the retargeting code can meet on well-typed input, and the outcome of a
  call: a returned value or a raised exception.
\<close>

datatype py_error = IndexError | RuntimeError | ZeroDivisionError | ValueError

datatype 'a outcome = Returns 'a | Raises py_error

subsection \<open>Vectors and quaternions\<close>

text \<open>
  \<open>mathutils.Vector\<close> and \<open>mathutils.Quaternion\<close> (components w, x, y, z), over the reals.
  The operations below are the ones the module uses: \<open>+\<close>, \<open>-\<close>, \<open>* s\<close>, \<open>/ s\<close>,
  \<open>length\<close>, \<open>normalized\<close> (the zero vector stays zero), \<open>cross\<close>, \<open>angle\<close> (which raises
  \<open>ValueError\<close> on a zero-length vector), \<open>Quaternion()\<close>, \<open>Quaternion(axis, angle)\<close>,
  \<open>@\<close> (the Hamilton product) and \<open>inverted\<close> (the conjugate over the squared norm; the
  zero quaternion is left as it is).
\<close>

datatype Vector = Vector (vx: real) (vy: real) (vz: real)

datatype Quaternion = Quaternion (qw: real) (qx: real) (qy: real) (qz: real)

definition vadd :: "Vector \<Rightarrow> Vector \<Rightarrow> Vector" where
  "vadd a b = Vector (vx a + vx b) (vy a + vy b) (vz a + vz b)"

definition vsub :: "Vector \<Rightarrow> Vector \<Rightarrow> Vector" where
  "vsub a b = Vector (vx a - vx b) (vy a - vy b) (vz a - vz b)"

definition vmul :: "Vector \<Rightarrow> real \<Rightarrow> Vector" where
  "vmul a s = Vector (vx a * s) (vy a * s) (vz a * s)"

definition vdiv :: "Vector \<Rightarrow> real \<Rightarrow> Vector" where
  "vdiv a s = Vector (vx a / s) (vy a / s) (vz a / s)"

definition dot :: "Vector \<Rightarrow> Vector \<Rightarrow> real" where
  "dot a b = vx a * vx b + vy a * vy b + vz a * vz b"

definition vlength :: "Vector \<Rightarrow> real" where
  "vlength a = sqrt (dot a a)"

definition normalized :: "Vector \<Rightarrow> Vector" where
  "normalized a = (if vlength a = 0 then Vector 0 0 0 else vdiv a (vlength a))"

definition cross :: "Vector \<Rightarrow> Vector \<Rightarrow> Vector" where
  "cross a b = Vector (vy a * vz b - vz a * vy b) (vz a * vx b - vx a * vz b)
                      (vx a * vy b - vy a * vx b)"

definition angle :: "Vector \<Rightarrow> Vector \<Rightarrow> real option" where
  "angle a b =
     (if vlength a = 0 \<or> vlength b = 0 then None
      else Some (arccos (max (- 1) (min 1 (dot (normalized a) (normalized b))))))"

definition quat_identity :: Quaternion where
  "quat_identity = Quaternion 1 0 0 0"

definition quat_axis_angle :: "Vector \<Rightarrow> real \<Rightarrow> Quaternion" where
  "quat_axis_angle axis a =
     (if vlength axis = 0 then quat_identity
      else (let n = normalized axis; s = sin (a / 2)
            in Quaternion (cos (a / 2)) (vx n * s) (vy n * s) (vz n * s)))"

definition quat_mul :: "Quaternion \<Rightarrow> Quaternion \<Rightarrow> Quaternion" where
  "quat_mul a b =
     Quaternion (qw a * qw b - qx a * qx b - qy a * qy b - qz a * qz b)
                (qw a * qx b + qx a * qw b + qy a * qz b - qz a * qy b)
                (qw a * qy b + qy a * qw b + qz a * qx b - qx a * qz b)
                (qw a * qz b + qz a * qw b + qx a * qy b - qy a * qx b)"

definition quat_dot :: "Quaternion \<Rightarrow> Quaternion \<Rightarrow> real" where
  "quat_dot a b = qw a * qw b + qx a * qx b + qy a * qy b + qz a * qz b"

definition inverted :: "Quaternion \<Rightarrow> Quaternion" where
  "inverted q =
     (let f = quat_dot q q
      in if f = 0 then q
         else Quaternion (qw q * (1 / f)) (- qx q * (1 / f)) (- qy q * (1 / f)) (- qz q * (1 / f)))"

subsection \<open>The rig and the scene\<close>

text \<open>
  A pose bone with the attributes the module reads and writes (\<open>bone_length\<close> is
  \<open>pose_bone.bone.length\<close>), and an object with its \<open>type\<close>, its \<open>mode\<close> and its
  \<open>pose.bones\<close> in order. \<open>bones_get\<close> is \<open>pose_bones.get(name)\<close>; \<open>bones_put\<close> writes a
  changed bone back in its place.
\<close>

record pose_bone =
  name :: string
  rotation_mode :: string
  rotation_quaternion :: Quaternion
  location :: Vector
  bone_length :: real

record blender_object =
  obj_name :: string
  obj_type :: string
  mode :: string
  bones :: "pose_bone list"

fun bones_get :: "pose_bone list \<Rightarrow> string \<Rightarrow> pose_bone option" where
  "bones_get [] n = None"
| "bones_get (b # bs) n = (if name b = n then Some b else bones_get bs n)"

fun bones_put :: "pose_bone list \<Rightarrow> pose_bone \<Rightarrow> pose_bone list" where
  "bones_put [] b' = []"
| "bones_put (b # bs) b' = (if name b = name b' then b' # bs else b # bones_put bs b')"

text \<open>
  What the module reads and writes outside its arguments: the addon properties of the
  scene (target armature, mode, mapping collection as pairs of \<open>mocap_name\<close> and
  \<open>blender_name\<close>, the two status flags), \<open>bpy.data.objects\<close>, the active object of the
  context (by name), whether \<open>bpy.ops.object.mode_set\<close> would raise \<open>RuntimeError\<close>, the
  module's global \<open>CALIBRATION_OFFSETS\<close>, and what has been printed.
\<close>

record world =
  target_armature :: "blender_object option"
  mocap_mode :: string
  mapping_collection :: "(string \<times> string) list"
  is_running :: bool
  data_active :: bool
  objects :: "blender_object list"
  active :: "string option"
  mode_set_fails :: bool
  CALIBRATION_OFFSETS :: "string \<rightharpoonup> Quaternion"
  printed :: "string list"

text \<open>
  A Python \<open>dict\<close> with string keys, in insertion order: assignment replaces the value of
  a key in place or appends a new key.
\<close>

fun dict_set :: "('k \<times> 'v) list \<Rightarrow> 'k \<Rightarrow> 'v \<Rightarrow> ('k \<times> 'v) list" where
  "dict_set [] k v = [(k, v)]"
| "dict_set ((k', v') # d) k v = (if k' = k then (k, v) # d else (k', v') # dict_set d k v)"

fun dict_get :: "('k \<times> 'v) list \<Rightarrow> 'k \<Rightarrow> 'v option" where
  "dict_get [] k = None"
| "dict_get ((k', v') # d) k = (if k' = k then Some v' else dict_get d k)"

text \<open>
  \<open>get_bone_map_from_properties\<close>, lines 9 to 17: items with an empty name on either side
  are skipped, a later item overwrites an earlier one with the same \<open>mocap_name\<close>.
\<close>

fun build_bone_map :: "(string \<times> string) list \<Rightarrow> (string \<times> string) list \<Rightarrow> (string \<times> string) list" where
  "build_bone_map bone_map [] = bone_map"
| "build_bone_map bone_map ((mocap_name, blender_name) # items) =
     build_bone_map
       (if mocap_name \<noteq> [] \<and> blender_name \<noteq> [] then dict_set bone_map mocap_name blender_name
        else bone_map) items"

definition get_bone_map_from_properties :: "world \<Rightarrow> (string \<times> string) list" where
  "get_bone_map_from_properties w = build_bone_map [] (mapping_collection w)"

subsection \<open>Rotation with calibration offset, and calibration\<close>

text \<open>
  \<open>apply_rotation\<close>, lines 73 to 97, on a list of numbers. With numbers in the list no
  exception is raised inside the \<open>try\<close>.
\<close>

definition apply_rotation ::
  "(string \<rightharpoonup> Quaternion) \<Rightarrow> pose_bone \<Rightarrow> real list \<Rightarrow> pose_bone" where
  "apply_rotation offsets pose_bone rotation_data =
     (if rotation_data \<noteq> [] \<and> length rotation_data = 4 then
        (let mocap_quat = Quaternion (rotation_data ! 0) (rotation_data ! 1)
                                     (rotation_data ! 2) (rotation_data ! 3);
             final_quat = (case offsets (name pose_bone) of
                             Some offset_quat \<Rightarrow> quat_mul offset_quat mocap_quat
                           | None \<Rightarrow> mocap_quat)
         in pose_bone\<lparr>rotation_mode := ''QUATERNION'', rotation_quaternion := final_quat\<rparr>)
      else pose_bone)"

text \<open>
  The loop of lines 216 to 222 over \<open>bone_map.values()\<close>, with the offsets and the count
  of calibrated bones.
\<close>

fun calibrate_bones ::
  "pose_bone list \<Rightarrow> string list \<Rightarrow> (string \<rightharpoonup> Quaternion) \<times> nat \<Rightarrow> (string \<rightharpoonup> Quaternion) \<times> nat" where
  "calibrate_bones pose_bones [] acc = acc"
| "calibrate_bones pose_bones (blender_name # names) (offsets, bones_calibrated) =
     calibrate_bones pose_bones names
       (case bones_get pose_bones blender_name of
          Some pose_bone \<Rightarrow>
            (offsets(blender_name \<mapsto> inverted (rotation_quaternion pose_bone)), bones_calibrated + 1)
        | None \<Rightarrow> (offsets, bones_calibrated))"

text \<open>
  The negation of the guard \<open>not armature_obj or armature_obj.type != 'ARMATURE'\<close>.
\<close>

definition is_armature :: "blender_object option \<Rightarrow> bool" where
  "is_armature armature_obj =
     (case armature_obj of None \<Rightarrow> False | Some a \<Rightarrow> obj_type a = ''ARMATURE'')"

text \<open>
  Lines 207 and 208 (and 157 and 158): make the armature the active object.
\<close>

definition make_active :: "blender_object \<Rightarrow> world \<Rightarrow> world" where
  "make_active arm w = (if active w \<noteq> Some (obj_name arm) then w\<lparr>active := Some (obj_name arm)\<rparr> else w)"

text \<open>
  \<open>calibrate_pose\<close>, lines 191 to 225. The offsets are cleared first (line 197), before the
  target is checked. \<open>mode_set\<close> is not guarded here, so its \<open>RuntimeError\<close> leaves the
  function.
\<close>

definition calibrate_pose ::
  "world \<Rightarrow> blender_object option \<Rightarrow> bool outcome \<times> world \<times> blender_object option" where
  "calibrate_pose w armature_obj =
     (let w1 = w\<lparr>CALIBRATION_OFFSETS := Map.empty\<rparr> in
      if \<not> is_armature armature_obj then
        (Returns False,
         w1\<lparr>printed := printed w1 @ [''Calibration Error: Target object is not an Armature.'']\<rparr>,
         armature_obj)
      else
        (let arm = the armature_obj;
             bone_map = get_bone_map_from_properties w1;
             w2 = make_active arm w1
         in if mode arm \<noteq> ''POSE'' \<and> mode_set_fails w2 then (Raises RuntimeError, w2, armature_obj)
            else
              (let arm1 = (if mode arm \<noteq> ''POSE'' then arm\<lparr>mode := ''POSE''\<rparr> else arm);
                   res = calibrate_bones (bones arm1) (map snd bone_map) (CALIBRATION_OFFSETS w2, 0)
               in (Returns True,
                   w2\<lparr>CALIBRATION_OFFSETS := fst res,
                      printed := printed w2 @ [''Calibration successful: Stored offsets.'']\<rparr>,
                   Some arm1))))"

subsection \<open>Facts about offsets and calibration\<close>

lemma quat_inverse_left:
  "quat_dot R R \<noteq> 0 \<Longrightarrow> quat_mul (inverted R) R = quat_identity"
proof (cases R)
  case (Quaternion w x y z)
  define f where "f = w * w + x * x + y * y + z * z"
  define a where "a = 1 / f"
  assume "quat_dot R R \<noteq> 0"
  then have f0: "f \<noteq> 0"
    by (simp add: Quaternion quat_dot_def f_def)
  have af: "a * f = 1"
    using f0 by (simp add: a_def)
  have inv: "inverted R = Quaternion (w * a) (- x * a) (- y * a) (- z * a)"
    using f0 by (simp add: Quaternion inverted_def quat_dot_def f_def a_def Let_def)
  have "w * a * w - (- x * a) * x - (- y * a) * y - (- z * a) * z = a * f"
    unfolding f_def by (simp add: algebra_simps)
  then have c0: "w * a * w - (- x * a) * x - (- y * a) * y - (- z * a) * z = 1"
    using af by simp
  have c1: "w * a * x + (- x * a) * w + (- y * a) * z - (- z * a) * y = 0"
    by (simp add: algebra_simps)
  have c2: "w * a * y + (- y * a) * w + (- z * a) * x - (- x * a) * z = 0"
    by (simp add: algebra_simps)
  have c3: "w * a * z + (- z * a) * w + (- x * a) * y - (- y * a) * x = 0"
    by (simp add: algebra_simps)
  have "quat_mul (Quaternion (w * a) (- x * a) (- y * a) (- z * a)) (Quaternion w x y z)
          = Quaternion 1 0 0 0"
    unfolding quat_mul_def Quaternion.sel using c0 c1 c2 c3 by (simp only:)
  then show ?thesis
    using inv by (simp add: Quaternion quat_identity_def)
qed

lemma calibrate_bones_at:
  "fst (calibrate_bones bs names (offs, k)) n =
     (if n \<in> set names \<and> bones_get bs n \<noteq> None
      then Some (inverted (rotation_quaternion (the (bones_get bs n)))) else offs n)"
  by (induction names arbitrary: offs k) (auto split: option.splits)

lemma apply_rotation_quat:
  "rotation_quaternion (apply_rotation offsets b [w, x, y, z]) =
     (case offsets (name b) of Some q_cal \<Rightarrow> quat_mul q_cal (Quaternion w x y z)
      | None \<Rightarrow> Quaternion w x y z)"
  by (simp add: apply_rotation_def Let_def)

text \<open>
  C3, as the code has it. For a target that is absent or not an armature,
  \<open>calibrate_pose\<close> reports failure, writes no offset from the rig and leaves the rig and
  the rest of the scene as they were; the stored offsets are not kept but emptied, since
  line 197 clears them before the check.
\<close>

theorem invalid_rig_calibration_clears_offsets:
  "\<not> is_armature armature_obj \<Longrightarrow>
   calibrate_pose w armature_obj =
     (Returns False,
      w\<lparr>CALIBRATION_OFFSETS := Map.empty,
        printed := printed w @ [''Calibration Error: Target object is not an Armature.'']\<rparr>,
      armature_obj)"
  by (simp add: calibrate_pose_def Let_def)


text \<open>
  A rig of one bone, rotated by a half turn about x, and a scene that maps the joint
  \<open>Spine\<close> to it and already holds a calibration offset for it.
\<close>

definition example_bone :: pose_bone where
  "example_bone = \<lparr>name = ''spine'', rotation_mode = ''XYZ'', rotation_quaternion = Quaternion 0 1 0 0,
                    location = Vector 0 0 0, bone_length = 1\<rparr>"

definition example_armature :: blender_object where
  "example_armature = \<lparr>obj_name = ''Armature'', obj_type = ''ARMATURE'', mode = ''OBJECT'',
                        bones = [example_bone]\<rparr>"

definition example_world :: world where
  "example_world =
     \<lparr>target_armature = Some example_armature, mocap_mode = ''WHOLE_BODY'',
      mapping_collection = [(''Spine'', ''spine'')], is_running = False, data_active = False,
      objects = [example_armature], active = None, mode_set_fails = False,
      CALIBRATION_OFFSETS = [''spine'' \<mapsto> Quaternion 0 0 1 0], printed = []\<rparr>"

lemma get_bone_map_offsets [simp]:
  "get_bone_map_from_properties (w\<lparr>CALIBRATION_OFFSETS := x\<rparr>) = get_bone_map_from_properties w"
  by (simp add: get_bone_map_from_properties_def)

lemma calibrate_pose_offsets:
  assumes "is_armature (Some arm)" "mode arm = ''POSE'' \<or> \<not> mode_set_fails w"
  shows "CALIBRATION_OFFSETS (fst (snd (calibrate_pose w (Some arm)))) n =
           (if n \<in> snd ` set (get_bone_map_from_properties w) \<and> bones_get (bones arm) n \<noteq> None
            then Some (inverted (rotation_quaternion (the (bones_get (bones arm) n)))) else None)"
  using assms
  by (auto simp: calibrate_pose_def Let_def make_active_def calibrate_bones_at)

text \<open>
  C8. The rotation written to a bone is the recorded offset times the incoming
  quaternion, offset on the left, and the incoming quaternion itself when no offset is
  recorded. When the offset is the inverse of a non-zero \<open>R\<close> and \<open>R\<close> arrives, the bone
  gets the identity; so it does when the offset was stored by \<open>calibrate_pose\<close> while a
  mapped bone stood at \<open>R\<close>. Floats are taken as reals.
\<close>

theorem offset_composed_on_the_left:
  "(offsets (name b) = Some q_cal \<longrightarrow>
      rotation_quaternion (apply_rotation offsets b [w, x, y, z]) = quat_mul q_cal (Quaternion w x y z)) \<and>
   (offsets (name b) = None \<longrightarrow>
      rotation_quaternion (apply_rotation offsets b [w, x, y, z]) = Quaternion w x y z) \<and>
   (quat_dot R R \<noteq> 0 \<and> offsets (name b) = Some (inverted R) \<longrightarrow>
      rotation_quaternion (apply_rotation offsets b [qw R, qx R, qy R, qz R]) = quat_identity) \<and>
   (is_armature (Some arm) \<and> (mode arm = ''POSE'' \<or> \<not> mode_set_fails wd) \<and>
    (m, name b) \<in> set (get_bone_map_from_properties wd) \<and>
    bones_get (bones arm) (name b) = Some b \<and> rotation_quaternion b = R \<and> quat_dot R R \<noteq> 0 \<longrightarrow>
      rotation_quaternion
        (apply_rotation (CALIBRATION_OFFSETS (fst (snd (calibrate_pose wd (Some arm))))) b
           [qw R, qx R, qy R, qz R]) = quat_identity)"
proof -
  have inv: "quat_dot R R \<noteq> 0 \<Longrightarrow> quat_mul (inverted R) (Quaternion (qw R) (qx R) (qy R) (qz R)) = quat_identity"
    using quat_inverse_left [of R] by simp
  have a: "offsets (name b) = Some q_cal \<longrightarrow>
      rotation_quaternion (apply_rotation offsets b [w, x, y, z]) = quat_mul q_cal (Quaternion w x y z)"
    by (simp add: apply_rotation_quat)
  have b: "offsets (name b) = None \<longrightarrow>
      rotation_quaternion (apply_rotation offsets b [w, x, y, z]) = Quaternion w x y z"
    by (simp add: apply_rotation_quat)
  have c: "quat_dot R R \<noteq> 0 \<and> offsets (name b) = Some (inverted R) \<longrightarrow>
      rotation_quaternion (apply_rotation offsets b [qw R, qx R, qy R, qz R]) = quat_identity"
    using inv by (simp add: apply_rotation_quat)
  have d: "is_armature (Some arm) \<and> (mode arm = ''POSE'' \<or> \<not> mode_set_fails wd) \<and>
    (m, name b) \<in> set (get_bone_map_from_properties wd) \<and>
    bones_get (bones arm) (name b) = Some b \<and> rotation_quaternion b = R \<and> quat_dot R R \<noteq> 0 \<longrightarrow>
      rotation_quaternion
        (apply_rotation (CALIBRATION_OFFSETS (fst (snd (calibrate_pose wd (Some arm))))) b
           [qw R, qx R, qy R, qz R]) = quat_identity"
  proof (intro impI, elim conjE)
    assume h: "is_armature (Some arm)" "mode arm = ''POSE'' \<or> \<not> mode_set_fails wd"
      "(m, name b) \<in> set (get_bone_map_from_properties wd)"
      "bones_get (bones arm) (name b) = Some b" "rotation_quaternion b = R" "quat_dot R R \<noteq> 0"
    have "name b \<in> snd ` set (get_bone_map_from_properties wd)"
      using h(3) by force
    then have "CALIBRATION_OFFSETS (fst (snd (calibrate_pose wd (Some arm)))) (name b) = Some (inverted R)"
      using h by (simp add: calibrate_pose_offsets)
    then show "rotation_quaternion
        (apply_rotation (CALIBRATION_OFFSETS (fst (snd (calibrate_pose wd (Some arm))))) b
           [qw R, qx R, qy R, qz R]) = quat_identity"
      using inv h(6) by (simp add: apply_rotation_quat)
  qed
  from a b c d show ?thesis by blast
qed

text \<open>
  The example bone with an offset of a half turn about y, with no offset, with the
  inverse of its own rotation, and after calibration of the example rig.
\<close>

theorem offset_composed_on_the_left_witness:
  "rotation_quaternion (apply_rotation [''spine'' \<mapsto> Quaternion 0 0 1 0] example_bone [0, 1, 0, 0])
     = Quaternion 0 0 0 (- 1) \<and>
   rotation_quaternion (apply_rotation Map.empty example_bone [0, 1, 0, 0]) = Quaternion 0 1 0 0 \<and>
   rotation_quaternion
     (apply_rotation [''spine'' \<mapsto> inverted (Quaternion 0 1 0 0)] example_bone [0, 1, 0, 0])
     = quat_identity \<and>
   rotation_quaternion
     (apply_rotation (CALIBRATION_OFFSETS (fst (snd (calibrate_pose example_world (Some example_armature)))))
        example_bone [0, 1, 0, 0]) = quat_identity"
  using offset_composed_on_the_left
    [of "[''spine'' \<mapsto> Quaternion 0 0 1 0]" example_bone "Quaternion 0 0 1 0" 0 1 0 0
        "Quaternion 0 1 0 0" example_armature example_world "''Spine''"]
    offset_composed_on_the_left
    [of "Map.empty" example_bone "Quaternion 0 0 1 0" 0 1 0 0
        "Quaternion 0 1 0 0" example_armature example_world "''Spine''"]
    offset_composed_on_the_left
    [of "[''spine'' \<mapsto> inverted (Quaternion 0 1 0 0)]" example_bone "Quaternion 0 0 1 0" 0 1 0 0
        "Quaternion 0 1 0 0" example_armature example_world "''Spine''"]
  by (simp add: example_bone_def example_armature_def example_world_def is_armature_def
        get_bone_map_from_properties_def quat_dot_def quat_mul_def)

text \<open>
  C3 as stated fails: calibration with no target returns \<open>False\<close> and the offset stored
  for \<open>spine\<close> before the call is gone after it.
\<close>

theorem invalid_rig_calibration_counterexample:
  "fst (calibrate_pose example_world None) = Returns False \<and>
   CALIBRATION_OFFSETS example_world ''spine'' = Some (Quaternion 0 0 1 0) \<and>
   CALIBRATION_OFFSETS (fst (snd (calibrate_pose example_world None))) ''spine'' = None"
  by (simp add: calibrate_pose_def is_armature_def example_world_def Let_def)

text \<open>
  No target, and a mesh as target.
\<close>

theorem invalid_rig_calibration_clears_offsets_witness:
  "calibrate_pose example_world None =
     (Returns False,
      example_world\<lparr>CALIBRATION_OFFSETS := Map.empty,
        printed := [''Calibration Error: Target object is not an Armature.'']\<rparr>, None) \<and>
   fst (calibrate_pose example_world (Some (example_armature\<lparr>obj_type := ''MESH''\<rparr>))) = Returns False \<and>
   CALIBRATION_OFFSETS (fst (snd (calibrate_pose example_world
        (Some (example_armature\<lparr>obj_type := ''MESH''\<rparr>))))) = Map.empty"
  using invalid_rig_calibration_clears_offsets [of None example_world]
    invalid_rig_calibration_clears_offsets [of "Some (example_armature\<lparr>obj_type := ''MESH''\<rparr>)" example_world]
  by (simp add: is_armature_def example_world_def example_armature_def)

subsection \<open>Landmark-driven retargeting: strings\<close>

text \<open>
  The string operations of \<open>resolve_bone_name\<close> and of the auto-mapper, on ASCII names:
  \<open>lower\<close>, \<open>capitalize\<close>, \<open>startswith\<close>, the substring test \<open>sub in s\<close>, \<open>strip\<close> and
  \<open>replace(' ', '')\<close>.
\<close>

definition lower_char :: "char \<Rightarrow> char" where
  "lower_char c = (let n = (of_char c :: nat) in if 65 \<le> n \<and> n \<le> 90 then char_of (n + 32) else c)"

definition upper_char :: "char \<Rightarrow> char" where
  "upper_char c = (let n = (of_char c :: nat) in if 97 \<le> n \<and> n \<le> 122 then char_of (n - 32) else c)"

definition str_lower :: "string \<Rightarrow> string" where
  "str_lower s = map lower_char s"

definition capitalize :: "string \<Rightarrow> string" where
  "capitalize s = (case s of [] \<Rightarrow> [] | c # cs \<Rightarrow> upper_char c # map lower_char cs)"

definition startswith :: "string \<Rightarrow> string \<Rightarrow> bool" where
  "startswith s p = (take (length p) s = p)"

fun contains :: "string \<Rightarrow> string \<Rightarrow> bool" where
  "contains sub [] = (sub = [])"
| "contains sub (c # cs) = (startswith (c # cs) sub \<or> contains sub cs)"

definition strip :: "string \<Rightarrow> string" where
  "strip s = rev (dropWhile isspace (rev (dropWhile isspace s)))"

definition remove_spaces :: "string \<Rightarrow> string" where
  "remove_spaces s = filter (\<lambda>c. c \<noteq> CHR '' '') s"

text \<open>
  \<open>resolve_bone_name\<close>, lines 243 to 284: the explicit mapping first, then the candidate
  names built from the base name and the side suffixes, then the first bone whose name
  contains the base name, case-insensitively.
\<close>

definition side_names :: "string \<Rightarrow> string list" where
  "side_names mocap_name =
     (if startswith (str_lower mocap_name) ''left'' then [''.L'', ''_L'', ''_left'', '' L'']
      else if startswith (str_lower mocap_name) ''right'' then [''.R'', ''_R'', ''_right'', '' R'']
      else ['''', ''.L'', ''.R'', ''_L'', ''_R''])"

definition base_name :: "string \<Rightarrow> string" where
  "base_name mocap_name =
     (let base = (if startswith mocap_name ''left'' then drop 4 mocap_name
                  else if startswith mocap_name ''right'' then drop 5 mocap_name
                  else if startswith mocap_name ''Left'' then drop 4 mocap_name
                  else if startswith mocap_name ''Right'' then drop 5 mocap_name
                  else mocap_name)
      in remove_spaces (strip base))"

definition candidates :: "string \<Rightarrow> string list \<Rightarrow> string list" where
  "candidates base sides =
     concat (map (\<lambda>s. [base @ s, ''Upper'' @ base @ s, ''upper_'' @ str_lower base @ s,
                         capitalize base @ s]) sides)"

definition resolve_bone_name ::
  "(string \<times> string) list \<Rightarrow> pose_bone list \<Rightarrow> string \<Rightarrow> string option" where
  "resolve_bone_name bone_map pose_bones mocap_name =
     (case dict_get bone_map mocap_name of
        Some blender_name \<Rightarrow> Some blender_name
      | None \<Rightarrow>
          (let base = base_name mocap_name in
           case find (\<lambda>c. bones_get pose_bones c \<noteq> None) (candidates base (side_names mocap_name)) of
             Some c \<Rightarrow> Some c
           | None \<Rightarrow> map_option name (find (\<lambda>b. contains (str_lower base) (str_lower (name b))) pose_bones)))"

subsection \<open>Landmark-driven retargeting: landmarks, smoothing, directions\<close>

text \<open>
  \<open>lm_to_vec\<close>, line 290, and \<open>lm_to_vec(pose_list[i])\<close>: \<open>None\<close> stands for the
  \<open>IndexError\<close> of a missing landmark or coordinate.
\<close>

definition lm_to_vec :: "real list \<Rightarrow> Vector option" where
  "lm_to_vec lm =
     (if length lm < 3 then None
      else Some (Vector ((lm ! 0 - 1 / 2) * 2) ((1 / 2 - lm ! 1) * 2) (- (lm ! 2))))"

definition landmark :: "real list list \<Rightarrow> nat \<Rightarrow> Vector option" where
  "landmark pose_list i = (if i < length pose_list then lm_to_vec (pose_list ! i) else None)"

text \<open>
  \<open>smooth_lm\<close>, lines 294 to 302, with the dictionary \<open>_LAST_LM\<close> passed in and returned;
  \<open>smooth_at\<close> is \<open>smooth_lm(idx, lm_to_vec(pose_list[idx]))\<close> with the default \<open>alpha\<close>.
\<close>

definition smooth_lm ::
  "(nat \<rightharpoonup> Vector) \<Rightarrow> nat \<Rightarrow> Vector \<Rightarrow> real \<Rightarrow> Vector \<times> (nat \<rightharpoonup> Vector)" where
  "smooth_lm LAST_LM idx vec alpha =
     (case LAST_LM idx of
        None \<Rightarrow> (vec, LAST_LM(idx \<mapsto> vec))
      | Some prev \<Rightarrow>
          (let res = vadd (vmul prev (1 - alpha)) (vmul vec alpha)
           in (res, LAST_LM(idx \<mapsto> res))))"

definition smooth_at ::
  "real list list \<Rightarrow> nat \<Rightarrow> (nat \<rightharpoonup> Vector) \<Rightarrow> (Vector \<times> (nat \<rightharpoonup> Vector)) option" where
  "smooth_at pose_list idx LAST_LM =
     (case landmark pose_list idx of
        None \<Rightarrow> None
      | Some vec \<Rightarrow> Some (smooth_lm LAST_LM idx vec (6 / 10)))"

text \<open>
  Lines 293 to 317. \<open>_LAST_LM = {}\<close> is a local of \<open>apply_mediapipe_pose\<close>, so each call
  starts from the empty dictionary; an exception among the six calls makes the function
  return.
\<close>

definition smoothed_landmarks ::
  "real list list \<Rightarrow> (Vector \<times> Vector \<times> Vector \<times> Vector \<times> Vector \<times> Vector) option" where
  "smoothed_landmarks pose_list =
     (case smooth_at pose_list 11 Map.empty of None \<Rightarrow> None | Some (ls, m1) \<Rightarrow>
      case smooth_at pose_list 12 m1 of None \<Rightarrow> None | Some (rs, m2) \<Rightarrow>
      case smooth_at pose_list 13 m2 of None \<Rightarrow> None | Some (le, m3) \<Rightarrow>
      case smooth_at pose_list 14 m3 of None \<Rightarrow> None | Some (re, m4) \<Rightarrow>
      case smooth_at pose_list 15 m4 of None \<Rightarrow> None | Some (lw, m5) \<Rightarrow>
      case smooth_at pose_list 16 m5 of None \<Rightarrow> None | Some (rw, m6) \<Rightarrow>
      Some (ls, rs, le, re, lw, rw))"

text \<open>
  \<open>set_bone_direction\<close>, lines 320 to 355. \<open>direction_quat\<close> is the quaternion of lines 329
  to 341, \<open>None\<close> where the function returns or catches an exception there and leaves the
  bone as it is. Its informational prints are left out.
\<close>

definition direction_quat :: "Vector \<Rightarrow> Vector \<Rightarrow> Quaternion option" where
  "direction_quat source_vec target_vec =
     (let dir_vec = vsub target_vec source_vec in
      if vlength dir_vec = 0 then None
      else (let dir_vec = normalized dir_vec;
                up = Vector 0 1 0;
                axis = cross up dir_vec
            in if vlength axis = 0 then Some quat_identity
               else (case angle up dir_vec of
                       None \<Rightarrow> None
                     | Some a \<Rightarrow> Some (quat_axis_angle (normalized axis) a))))"

definition set_bone_direction ::
  "(string \<rightharpoonup> Quaternion) \<Rightarrow> pose_bone list \<Rightarrow> Vector \<Rightarrow> Vector \<Rightarrow> string \<Rightarrow> pose_bone list" where
  "set_bone_direction offsets pose_bones source_vec target_vec blender_bone_name =
     (case bones_get pose_bones blender_bone_name of
        None \<Rightarrow> pose_bones
      | Some pose_bone \<Rightarrow>
          (case direction_quat source_vec target_vec of
             None \<Rightarrow> pose_bones
           | Some quat \<Rightarrow>
               (let final_q = (case offsets (name pose_bone) of
                                 Some offset_q \<Rightarrow> quat_mul offset_q quat
                               | None \<Rightarrow> quat)
                in bones_put pose_bones
                     (pose_bone\<lparr>rotation_mode := ''QUATERNION'', rotation_quaternion := final_q\<rparr>))))"

text \<open>
  \<open>two_bone_ik\<close>, lines 357 to 396. \<open>ik_joint\<close> is \<open>joint_pos\<close> of lines 375 to 391:
  \<open>Returns None\<close> is the early return for a target closer than \<open>eps\<close>, and a division by
  zero on line 390 is the exception \<open>ZeroDivisionError\<close>.
\<close>

definition ik_joint :: "Vector \<Rightarrow> Vector \<Rightarrow> real \<Rightarrow> real \<Rightarrow> Vector option outcome" where
  "ik_joint root_vec tip_vec L1 L2 =
     (let d = vlength (vsub tip_vec root_vec);
          eps = 1 / 1000000
      in if d < eps then Returns None
         else (let d_clamped = min (max d (\<bar>L1 - L2\<bar> + 1 / 1000)) (L1 + L2 - 1 / 1000);
                   dir_rt = normalized (vsub tip_vec root_vec)
               in if 2 * d_clamped = 0 then Raises ZeroDivisionError
                  else (let a = (L1 * L1 - L2 * L2 + d_clamped * d_clamped) / (2 * d_clamped)
                        in Returns (Some (vadd root_vec (vmul dir_rt a))))))"

definition two_bone_ik ::
  "(string \<rightharpoonup> Quaternion) \<Rightarrow> pose_bone list \<Rightarrow> Vector \<Rightarrow> Vector \<Rightarrow> Vector \<Rightarrow> string \<Rightarrow> string
     \<Rightarrow> unit outcome \<times> pose_bone list" where
  "two_bone_ik offsets pose_bones root_vec mid_vec tip_vec upper_name lower_name =
     (case (bones_get pose_bones upper_name, bones_get pose_bones lower_name) of
        (Some upper, Some lower) \<Rightarrow>
          (case ik_joint root_vec tip_vec (bone_length upper) (bone_length lower) of
             Raises e \<Rightarrow> (Raises e, pose_bones)
           | Returns None \<Rightarrow> (Returns (), pose_bones)
           | Returns (Some joint_pos) \<Rightarrow>
               (Returns (),
                set_bone_direction offsets
                  (set_bone_direction offsets pose_bones root_vec joint_pos upper_name)
                  joint_pos tip_vec lower_name))
      | _ \<Rightarrow> (Returns (), pose_bones))"

text \<open>
  An arm of two bones of length 1, both at rest with Euler rotation mode.
\<close>

definition example_limb :: "pose_bone list" where
  "example_limb = [example_bone\<lparr>name := ''upper_arm''\<rparr>, example_bone\<lparr>name := ''forearm''\<rparr>]"

text \<open>
  The list \<open>segments\<close> of lines 399 to 408. It reads landmarks 23, 25, 24 and 26 outside
  any \<open>try\<close>, so a missing one raises \<open>IndexError\<close> out of \<open>apply_mediapipe_pose\<close>.
\<close>

definition segments ::
  "real list list \<Rightarrow> Vector \<Rightarrow> Vector \<Rightarrow> Vector \<Rightarrow> Vector \<Rightarrow> Vector \<Rightarrow> Vector
     \<Rightarrow> (string \<times> string \<times> Vector \<times> Vector) list option" where
  "segments pose_list ls rs le re lw rw =
     (case landmark pose_list 23 of None \<Rightarrow> None | Some hip_l \<Rightarrow>
      case landmark pose_list 25 of None \<Rightarrow> None | Some knee_l \<Rightarrow>
      case landmark pose_list 24 of None \<Rightarrow> None | Some hip_r \<Rightarrow>
      case landmark pose_list 26 of None \<Rightarrow> None | Some knee_r \<Rightarrow>
      Some [(''LeftShoulder'', ''LeftElbow'', ls, le),
            (''LeftElbow'', ''LeftWrist'', le, lw),
            (''RightShoulder'', ''RightElbow'', rs, re),
            (''RightElbow'', ''RightWrist'', re, rw),
            (''Hips'', ''LeftUpLeg'', vdiv (vadd ls le) 2, hip_l),
            (''LeftUpLeg'', ''LeftLeg'', hip_l, knee_l),
            (''RightUpLeg'', ''RightLeg'', hip_r, knee_r)])"

text \<open>
  The truth value of a name that is \<open>None\<close> or a string.
\<close>

fun truthy :: "string option \<Rightarrow> bool" where
  "truthy None = False"
| "truthy (Some s) = (s \<noteq> [])"

text \<open>
  One pass of the loop of lines 411 to 419.
\<close>

definition apply_segment ::
  "(string \<rightharpoonup> Quaternion) \<Rightarrow> (string \<times> string) list
     \<Rightarrow> string \<times> string \<times> Vector \<times> Vector \<Rightarrow> pose_bone list \<Rightarrow> pose_bone list" where
  "apply_segment offsets bone_map seg pose_bones =
     (case seg of (mocap_a, mocap_b, a_vec, b_vec) \<Rightarrow>
        (let a_name = resolve_bone_name bone_map pose_bones mocap_a;
             b_name = resolve_bone_name bone_map pose_bones mocap_b
         in if truthy a_name then set_bone_direction offsets pose_bones a_vec b_vec (the a_name)
            else if truthy b_name then set_bone_direction offsets pose_bones a_vec b_vec (the b_name)
            else pose_bones))"

text \<open>
  Lines 422 to 448, inside \<open>try ... except Exception: pass\<close>: a missing landmark ends the
  block and keeps what it has set so far.
\<close>

definition set_if_resolved ::
  "(string \<rightharpoonup> Quaternion) \<Rightarrow> string option \<Rightarrow> Vector \<Rightarrow> Vector \<Rightarrow> pose_bone list \<Rightarrow> pose_bone list" where
  "set_if_resolved offsets bname a_vec b_vec pose_bones =
     (if truthy bname then set_bone_direction offsets pose_bones a_vec b_vec (the bname)
      else pose_bones)"

definition apply_torso ::
  "(string \<rightharpoonup> Quaternion) \<Rightarrow> (string \<times> string) list \<Rightarrow> real list list \<Rightarrow> pose_bone list
     \<Rightarrow> pose_bone list" where
  "apply_torso offsets bone_map pose_list pose_bones =
     (case landmark pose_list 23 of None \<Rightarrow> pose_bones | Some hip_l \<Rightarrow>
      case landmark pose_list 24 of None \<Rightarrow> pose_bones | Some hip_r \<Rightarrow>
      case landmark pose_list 11 of None \<Rightarrow> pose_bones | Some spine \<Rightarrow>
      case landmark pose_list 12 of None \<Rightarrow> pose_bones | Some shoulder_r \<Rightarrow>
        (let hips_mid = vdiv (vadd hip_l hip_r) 2;
             neck_mid = vdiv (vadd spine shoulder_r) 2;
             b1 = set_if_resolved offsets (resolve_bone_name bone_map pose_bones ''Hips'')
                    hips_mid spine pose_bones;
             b2 = set_if_resolved offsets (resolve_bone_name bone_map b1 ''Spine'')
                    hips_mid neck_mid b1;
             neck_bname = resolve_bone_name bone_map b2 ''Neck'';
             head_bname = resolve_bone_name bone_map b2 ''Head''
         in case landmark pose_list 0 of
              None \<Rightarrow> b2
            | Some nose \<Rightarrow>
                set_if_resolved offsets head_bname neck_mid nose
                  (set_if_resolved offsets neck_bname neck_mid nose b2)))"

text \<open>
  The \<open>mediapipe\<close> object of a frame; \<open>pose\<close> is \<open>mediapipe_data.get('pose')\<close>.
  \<open>apply_mediapipe_pose\<close>, lines 228 to 448, returns the armature with its bones updated.
\<close>

record mediapipe =
  pose :: "real list list option"

definition apply_mediapipe_pose ::
  "world \<Rightarrow> blender_object \<Rightarrow> mediapipe \<Rightarrow> unit outcome \<times> blender_object" where
  "apply_mediapipe_pose w armature_obj mediapipe_data =
     (case pose mediapipe_data of
        None \<Rightarrow> (Returns (), armature_obj)
      | Some pose_list \<Rightarrow>
          if pose_list = [] \<or> length pose_list < 16 then (Returns (), armature_obj)
          else
            (let bone_map = get_bone_map_from_properties w;
                 offsets = CALIBRATION_OFFSETS w;
                 pose_bones = bones armature_obj
             in case smoothed_landmarks pose_list of
                  None \<Rightarrow> (Returns (), armature_obj)
                | Some (ls, rs, le, re, lw, rw) \<Rightarrow>
                    (case segments pose_list ls rs le re lw rw of
                       None \<Rightarrow> (Raises IndexError, armature_obj)
                     | Some segs \<Rightarrow>
                         (Returns (),
                          armature_obj\<lparr>bones :=
                            apply_torso offsets bone_map pose_list
                              (fold (apply_segment offsets bone_map) segs pose_bones)\<rparr>))))"

subsection \<open>Frames and \<open>apply_mocap_data\<close>\<close>

text \<open>
  A decoded frame with well-typed fields: \<open>None\<close> is an absent key, \<open>frame_mediapipe\<close> is
  \<open>None\<close> when the key is absent or its value is falsy.
\<close>

record joint =
  rotation_wzxy :: "real list option"
  location_xyz :: "real list option"

record frame =
  frame_mode :: "string option"
  joints :: "string \<rightharpoonup> joint"
  frame_mediapipe :: "mediapipe option"

text \<open>
  \<open>map_whole_body\<close>, lines 100 to 122, and \<open>map_hands_only\<close>, lines 125 to 139: the body of
  their loops over \<open>bone_map.items()\<close>, the root location, and the two functions.
\<close>

definition apply_joint_rotation ::
  "(string \<rightharpoonup> Quaternion) \<Rightarrow> (string \<rightharpoonup> joint) \<Rightarrow> string \<times> string \<Rightarrow> pose_bone list
     \<Rightarrow> pose_bone list" where
  "apply_joint_rotation offsets mocap_joints item pose_bones =
     (case item of (mocap_name, blender_name) \<Rightarrow>
        (case mocap_joints mocap_name of
           None \<Rightarrow> pose_bones
         | Some j \<Rightarrow>
             (case (bones_get pose_bones blender_name, rotation_wzxy j) of
                (Some pose_bone, Some rotation_data) \<Rightarrow>
                  bones_put pose_bones (apply_rotation offsets pose_bone rotation_data)
              | _ \<Rightarrow> pose_bones)))"

definition apply_hips_location ::
  "(string \<times> string) list \<Rightarrow> (string \<rightharpoonup> joint) \<Rightarrow> pose_bone list \<Rightarrow> pose_bone list" where
  "apply_hips_location bone_map mocap_joints pose_bones =
     (case (mocap_joints ''Hips'', dict_get bone_map ''Hips'') of
        (Some j, Some blender_name) \<Rightarrow>
          (case (bones_get pose_bones blender_name, location_xyz j) of
             (Some hips_bone, Some loc_data) \<Rightarrow>
               if length loc_data = 3
               then bones_put pose_bones
                      (hips_bone\<lparr>location := Vector (loc_data ! 0) (loc_data ! 1) (loc_data ! 2)\<rparr>)
               else pose_bones
           | _ \<Rightarrow> pose_bones)
      | _ \<Rightarrow> pose_bones)"

definition map_whole_body ::
  "world \<Rightarrow> blender_object \<Rightarrow> (string \<rightharpoonup> joint) \<Rightarrow> blender_object" where
  "map_whole_body w armature_obj mocap_joints =
     (let bone_map = get_bone_map_from_properties w;
          b1 = apply_hips_location bone_map mocap_joints (bones armature_obj)
      in armature_obj\<lparr>bones :=
           fold (apply_joint_rotation (CALIBRATION_OFFSETS w) mocap_joints) bone_map b1\<rparr>)"

definition HAND_FILTER :: "string list" where
  "HAND_FILTER = [''Hand'', ''Finger'', ''Index'', ''Thumb'', ''Middle'', ''Ring'', ''Pinky'']"

definition map_hands_only ::
  "world \<Rightarrow> blender_object \<Rightarrow> (string \<rightharpoonup> joint) \<Rightarrow> blender_object" where
  "map_hands_only w armature_obj mocap_joints =
     (let bone_map = get_bone_map_from_properties w
      in armature_obj\<lparr>bones :=
           fold (apply_joint_rotation (CALIBRATION_OFFSETS w) mocap_joints)
             (filter (\<lambda>(mocap_name, blender_name). list_ex (\<lambda>f. contains f mocap_name) HAND_FILTER)
                bone_map)
             (bones armature_obj)\<rparr>)"

text \<open>
  \<open>apply_mocap_data\<close>, lines 142 to 189. Every path ends in a plain \<open>return\<close> or falls
  off the end; the two guards print and return, and the exception of
  \<open>apply_mediapipe_pose\<close> is caught and printed.
\<close>

definition apply_mocap_data ::
  "world \<Rightarrow> blender_object option \<Rightarrow> frame \<Rightarrow> unit outcome \<times> world \<times> blender_object option" where
  "apply_mocap_data w armature_obj mocap_data_json =
     (if \<not> is_armature armature_obj then
        (Returns (),
         w\<lparr>printed := printed w @ [''Error: Target object is not a valid Armature.'']\<rparr>,
         armature_obj)
      else
        (let arm = the armature_obj;
             w1 = make_active arm w
         in if mode arm \<noteq> ''POSE'' \<and> mode_set_fails w1 then
              (Returns (),
               w1\<lparr>printed := printed w1 @
                  [''Error: Could not set Pose Mode on armature. Aborting update.'']\<rparr>,
               armature_obj)
            else
              (let arm1 = (if mode arm \<noteq> ''POSE'' then arm\<lparr>mode := ''POSE''\<rparr> else arm);
                   (w2, arm2) =
                     (case frame_mediapipe mocap_data_json of
                        None \<Rightarrow> (w1, arm1)
                      | Some mediapipe_data \<Rightarrow>
                          (case apply_mediapipe_pose w1 arm1 mediapipe_data of
                             (Raises e, a) \<Rightarrow>
                               (w1\<lparr>printed := printed w1 @ [''Error applying MediaPipe data'']\<rparr>, a)
                           | (Returns u, a) \<Rightarrow> (w1, a)));
                   arm3 = (if mocap_mode w2 = ''WHOLE_BODY''
                           then map_whole_body w2 arm2 (joints mocap_data_json)
                           else if mocap_mode w2 = ''HANDS_ONLY''
                           then map_hands_only w2 arm2 (joints mocap_data_json)
                           else arm2)
               in (Returns (), w2, Some arm3))))"

text \<open>
  A frame with one joint and no landmarks.
\<close>

definition example_frame :: frame where
  "example_frame =
     \<lparr>frame_mode = Some ''WHOLE_BODY'',
      joints = [''Spine'' \<mapsto> \<lparr>rotation_wzxy = Some [1, 0, 0, 0], location_xyz = None\<rparr>],
      frame_mediapipe = None\<rparr>"

subsection \<open>Auto-mapping and the start operator (operators.py)\<close>

text \<open>
  \<open>auto_map_mixamorig\<close>, lines 20 to 71. \<open>pose_names\<close> is a Python set: \<open>set_iter\<close> gives the
  order in which it is iterated, as a function of the list of bone names.
\<close>

definition wanted :: "(string \<times> string) list" where
  "wanted =
     [(''Hips'', ''mixamorig:Hips''),
      (''Spine'', ''mixamorig:Spine''),
      (''Neck'', ''mixamorig:Neck''),
      (''Head'', ''mixamorig:Head''),
      (''LeftShoulder'', ''mixamorig:LeftShoulder''),
      (''LeftElbow'', ''mixamorig:LeftForeArm''),
      (''LeftWrist'', ''mixamorig:LeftHand''),
      (''RightShoulder'', ''mixamorig:RightShoulder''),
      (''RightElbow'', ''mixamorig:RightForeArm''),
      (''RightWrist'', ''mixamorig:RightHand''),
      (''LeftUpLeg'', ''mixamorig:LeftUpLeg''),
      (''LeftLeg'', ''mixamorig:LeftLeg''),
      (''RightUpLeg'', ''mixamorig:RightUpLeg''),
      (''RightLeg'', ''mixamorig:RightLeg'')]"

definition after_last_colon :: "string \<Rightarrow> string" where
  "after_last_colon pattern = rev (takeWhile (\<lambda>c. c \<noteq> CHR '':'') (rev pattern))"

definition find_bone :: "(string list \<Rightarrow> string list) \<Rightarrow> string list \<Rightarrow> string \<Rightarrow> string option" where
  "find_bone set_iter pose_names pattern =
     (if pattern \<in> set pose_names then Some pattern
      else (let short = after_last_colon pattern
            in find (\<lambda>bn. contains (str_lower short) (str_lower bn)) (set_iter pose_names)))"

definition auto_entries :: "(string list \<Rightarrow> string list) \<Rightarrow> string list \<Rightarrow> (string \<times> string) list" where
  "auto_entries set_iter pose_names =
     concat (map (\<lambda>(mocap_name, pattern).
                    if truthy (find_bone set_iter pose_names pattern)
                    then [(mocap_name, the (find_bone set_iter pose_names pattern))] else [])
                 wanted)"

definition auto_map_mixamorig :: "(string list \<Rightarrow> string list) \<Rightarrow> world \<Rightarrow> world" where
  "auto_map_mixamorig set_iter w =
     (if \<not> is_armature (target_armature w) then w
      else (let arm_obj = the (target_armature w);
                pose_names = map name (bones arm_obj);
                added = auto_entries set_iter pose_names
            in w\<lparr>mapping_collection := added,
                 printed := printed w @
                   [if added \<noteq> [] then ''Auto-mapped bones''
                    else ''Auto-map: no compatible mixamorig bones found in armature'']\<rparr>))"

text \<open>
  \<open>MOCAP_OT_live_capture.execute\<close>, lines 68 to 113. \<open>start_ok\<close> says whether the set-up of
  the receiver and the timer (lines 92 to 106) goes through.
\<close>

datatype op_result = CANCELLED | RUNNING_MODAL

definition select_armature :: "world \<Rightarrow> world" where
  "select_armature w =
     (case target_armature w of
        Some a \<Rightarrow> w
      | None \<Rightarrow>
          (case find (\<lambda>ob. obj_type ob = ''ARMATURE'') (objects w) of
             Some arm \<Rightarrow> w\<lparr>target_armature := Some arm\<rparr>
           | None \<Rightarrow> w))"

definition execute :: "(string list \<Rightarrow> string list) \<Rightarrow> bool \<Rightarrow> world \<Rightarrow> op_result \<times> world" where
  "execute set_iter start_ok w =
     (if is_running w then (CANCELLED, w)
      else (let w1 = select_armature w;
                w2 = (case target_armature w1 of
                        Some a \<Rightarrow> auto_map_mixamorig set_iter w1
                      | None \<Rightarrow> w1)
            in if start_ok then (RUNNING_MODAL, w2\<lparr>is_running := True, data_active := False\<rparr>)
               else (CANCELLED, w2)))"

subsection \<open>Facts about the landmark path\<close>

lemma landmark_in_range:
  "i < length pose_list \<Longrightarrow> list_all (\<lambda>lm. 3 \<le> length lm) pose_list \<Longrightarrow>
   landmark pose_list i \<noteq> None"
  by (auto simp: landmark_def lm_to_vec_def list_all_length)

lemma landmark_out_of_range: "length pose_list \<le> i \<Longrightarrow> landmark pose_list i = None"
  by (simp add: landmark_def)

lemma smooth_at_fresh:
  "LAST_LM idx = None \<Longrightarrow>
   smooth_at pose_list idx LAST_LM =
     map_option (\<lambda>vec. (vec, LAST_LM(idx \<mapsto> vec))) (landmark pose_list idx)"
  by (simp add: smooth_at_def smooth_lm_def split: option.splits)

lemma smoothed_landmarks_raw:
  "smoothed_landmarks pose_list =
     (case landmark pose_list 11 of None \<Rightarrow> None | Some ls \<Rightarrow>
      case landmark pose_list 12 of None \<Rightarrow> None | Some rs \<Rightarrow>
      case landmark pose_list 13 of None \<Rightarrow> None | Some le \<Rightarrow>
      case landmark pose_list 14 of None \<Rightarrow> None | Some re \<Rightarrow>
      case landmark pose_list 15 of None \<Rightarrow> None | Some lw \<Rightarrow>
      case landmark pose_list 16 of None \<Rightarrow> None | Some rw \<Rightarrow>
      Some (ls, rs, le, re, lw, rw))"
  by (simp add: smoothed_landmarks_def smooth_at_fresh split: option.splits)

lemma smoothed_landmarks_short:
  "length pose_list < 17 \<Longrightarrow> smoothed_landmarks pose_list = None"
  by (simp add: smoothed_landmarks_raw landmark_out_of_range split: option.splits)

lemma smoothed_landmarks_some:
  "17 \<le> length pose_list \<Longrightarrow> list_all (\<lambda>lm. 3 \<le> length lm) pose_list \<Longrightarrow>
   smoothed_landmarks pose_list \<noteq> None"
  using landmark_in_range [of 11 pose_list] landmark_in_range [of 12 pose_list]
    landmark_in_range [of 13 pose_list] landmark_in_range [of 14 pose_list]
    landmark_in_range [of 15 pose_list] landmark_in_range [of 16 pose_list]
  by (auto simp: smoothed_landmarks_raw split: option.splits)

lemma segments_short:
  "length pose_list < 27 \<Longrightarrow> segments pose_list ls rs le re lw rw = None"
  by (simp add: segments_def landmark_out_of_range split: option.splits)

lemma fewer_than_17_landmarks_no_mutation:
  "length pose_list < 17 \<Longrightarrow>
   apply_mediapipe_pose w armature_obj \<lparr>pose = Some pose_list\<rparr> = (Returns (), armature_obj)"
  by (simp add: apply_mediapipe_pose_def smoothed_landmarks_short Let_def)

text \<open>
  C2. Whatever frames came before, the six smoothed landmarks of a frame are its raw
  landmarks: the smoothing state is created empty on each call, so every sample is a
  first sample and the weighted average of \<open>smooth_lm\<close> is never taken.
\<close>

theorem smoothing_state_not_carried_over:
  "smoothed_landmarks pose_list = Some (ls, rs, le, re, lw, rw) \<Longrightarrow>
   landmark pose_list 11 = Some ls \<and> landmark pose_list 12 = Some rs \<and>
   landmark pose_list 13 = Some le \<and> landmark pose_list 14 = Some re \<and>
   landmark pose_list 15 = Some lw \<and> landmark pose_list 16 = Some rw"
  by (simp add: smoothed_landmarks_raw split: option.splits)

lemma landmark_replicate:
  "i < n \<Longrightarrow> landmark (replicate n [x, y, z]) i = Some (Vector ((x - 1 / 2) * 2) ((1 / 2 - y) * 2) (- z))"
  by (simp add: landmark_def lm_to_vec_def)

text \<open>
  Two successive frames, all landmarks at the image centre and then at its right edge:
  the second frame gives 1, not the 0.6 that \<open>smooth_lm\<close> computes from a carried state.
\<close>

theorem smoothing_state_not_carried_over_witness:
  "map smoothed_landmarks [replicate 17 [1 / 2, 1 / 2, 0], replicate 17 [1, 1 / 2, 0]] =
     [Some (Vector 0 0 0, Vector 0 0 0, Vector 0 0 0, Vector 0 0 0, Vector 0 0 0, Vector 0 0 0),
      Some (Vector 1 0 0, Vector 1 0 0, Vector 1 0 0, Vector 1 0 0, Vector 1 0 0, Vector 1 0 0)] \<and>
   landmark (replicate 17 [1, 1 / 2, 0]) 11 = Some (Vector 1 0 0) \<and>
   fst (smooth_lm [11 \<mapsto> Vector 0 0 0] 11 (Vector 1 0 0) (6 / 10)) = Vector (6 / 10) 0 0"
  using smoothing_state_not_carried_over
    [of "replicate 17 [1, 1 / 2, 0]" "Vector 1 0 0" "Vector 1 0 0" "Vector 1 0 0" "Vector 1 0 0"
        "Vector 1 0 0" "Vector 1 0 0"]
  by (simp add: smoothed_landmarks_raw landmark_replicate smooth_lm_def vadd_def vmul_def Let_def)

text \<open>
  C4. A pose list of 17 to 26 well-formed landmarks, enough for the arms, makes
  \<open>apply_mediapipe_pose\<close> raise \<open>IndexError\<close> while it builds \<open>segments\<close>, before any bone
  is set: the rig comes back unchanged.
\<close>

theorem upper_body_landmarks_alone_raise:
  "17 \<le> length pose_list \<Longrightarrow> length pose_list < 27 \<Longrightarrow>
   list_all (\<lambda>lm. 3 \<le> length lm) pose_list \<Longrightarrow>
   apply_mediapipe_pose w armature_obj \<lparr>pose = Some pose_list\<rparr> = (Raises IndexError, armature_obj)"
proof -
  assume h: "17 \<le> length pose_list" "length pose_list < 27"
    "list_all (\<lambda>lm. 3 \<le> length lm) pose_list"
  from smoothed_landmarks_some [OF h(1) h(3)]
  obtain ls rs le re lw rw where sm: "smoothed_landmarks pose_list = Some (ls, rs, le, re, lw, rw)"
    by (cases "smoothed_landmarks pose_list") auto
  have ne: "pose_list \<noteq> []" "\<not> length pose_list < 16"
    using h(1) by auto
  show ?thesis
    using ne by (simp add: apply_mediapipe_pose_def Let_def sm segments_short [OF h(2)])
qed

text \<open>
  Lists of 17 and of 26 landmarks.
\<close>

theorem upper_body_landmarks_alone_raise_witness:
  "apply_mediapipe_pose example_world example_armature \<lparr>pose = Some (replicate 17 [1 / 2, 1 / 2, 0])\<rparr>
     = (Raises IndexError, example_armature) \<and>
   apply_mediapipe_pose example_world example_armature \<lparr>pose = Some (replicate 26 [1 / 2, 1 / 2, 0])\<rparr>
     = (Raises IndexError, example_armature)"
  using upper_body_landmarks_alone_raise [of "replicate 17 [1 / 2, 1 / 2, 0]" example_world example_armature]
    upper_body_landmarks_alone_raise [of "replicate 26 [1 / 2, 1 / 2, 0]" example_world example_armature]
  by (simp add: list_all_length)

subsection \<open>Facts about the two-bone solver\<close>

lemma vlength_scaled_unit: "dot u u = 1 \<Longrightarrow> 0 \<le> d \<Longrightarrow> vlength (vmul u d) = d"
proof -
  assume h: "dot u u = 1" "0 \<le> d"
  have "dot (vmul u d) (vmul u d) = d * d * dot u u"
    by (simp add: dot_def vmul_def algebra_simps)
  then show ?thesis
    using h by (simp add: vlength_def)
qed

lemma vsub_vadd_cancel: "vsub (vadd r v) r = v"
  by (cases v) (simp add: vsub_def vadd_def)

lemma normalized_scaled_unit: "dot u u = 1 \<Longrightarrow> 0 < d \<Longrightarrow> normalized (vmul u d) = u"
proof -
  assume h: "dot u u = 1" "0 < d"
  then have "vlength (vmul u d) = d"
    by (simp add: vlength_scaled_unit)
  then show ?thesis
    using h(2) by (cases u) (simp add: normalized_def vdiv_def vmul_def)
qed

lemma ik_joint_equal_lengths:
  assumes "dot u u = 1" "1 / 1000 \<le> d" "d \<le> 2 - 1 / 1000"
  shows "ik_joint r (vadd r (vmul u d)) 1 1 = Returns (Some (vdiv (vadd r (vadd r (vmul u d))) 2))"
proof -
  have d0: "0 < d" using assms(2) by simp
  have len: "vlength (vsub (vadd r (vmul u d)) r) = d"
    using assms(1) d0 by (simp add: vsub_vadd_cancel vlength_scaled_unit)
  have dir: "normalized (vsub (vadd r (vmul u d)) r) = u"
    using assms(1) d0 by (simp add: vsub_vadd_cancel normalized_scaled_unit)
  have clamp: "min (max d (\<bar>1 - 1\<bar> + 1 / 1000)) (1 + 1 - 1 / 1000) = d"
    using assms(2,3) by (simp add: min_def max_def)
  have a: "(1 * 1 - 1 * 1 + d * d) / (2 * d) = d / 2"
    using d0 by (simp add: field_simps)
  have mid: "vadd r (vmul u (d / 2)) = vdiv (vadd r (vadd r (vmul u d))) 2"
    by (cases r; cases u) (simp add: vadd_def vmul_def vdiv_def field_simps)
  have big: "\<not> d < 1 / 1000000" using assms(2) by simp
  show ?thesis
    unfolding ik_joint_def Let_def len dir clamp a
    using big d0 mid by simp
qed

lemma ik_joint_zero_distance: "ik_joint r r L1 L2 = Returns None"
  by (cases r) (simp add: ik_joint_def vsub_def vlength_def dot_def Let_def)

lemma ik_joint_unit_lengths_no_error: "ik_joint r t 1 1 \<noteq> Raises err"
  by (simp add: ik_joint_def Let_def min_def max_def)

lemma direction_quat_along:
  assumes "vsub t s = vmul u d" "dot u u = 1" "0 < d"
  shows "direction_quat s t = direction_quat (Vector 0 0 0) u"
proof -
  have len: "vlength (vmul u d) = d" using assms by (simp add: vlength_scaled_unit)
  have nrm: "normalized (vmul u d) = u" using assms by (simp add: normalized_scaled_unit)
  have u0: "vsub u (Vector 0 0 0) = u" by (cases u) (simp add: vsub_def)
  have lu: "vlength u = 1" using assms(2) by (simp add: vlength_def)
  have nu: "normalized u = u" using lu by (cases u) (simp add: normalized_def vdiv_def)
  show ?thesis
    using assms(3) by (simp add: direction_quat_def assms(1) len nrm u0 lu nu Let_def)
qed

lemma midpoint_from_root:
  "vsub (vdiv (vadd r (vadd r (vmul u d))) 2) r = vmul u (d / 2)"
  by (cases r; cases u) (simp add: vsub_def vadd_def vmul_def vdiv_def field_simps)

lemma target_from_midpoint:
  "vsub (vadd r (vmul u d)) (vdiv (vadd r (vadd r (vmul u d))) 2) = vmul u (d / 2)"
  by (cases r; cases u) (simp add: vsub_def vadd_def vmul_def vdiv_def field_simps)

lemma ik_joint_over_extended:
  assumes "dot u u = 1" "0 < e" "e < 1 / 1000"
  shows "ik_joint r (vadd r (vmul u (2 - e))) 1 1 = Returns (Some (vadd r (vmul u (1999 / 2000))))"
proof -
  have d0: "0 < 2 - e" using assms(3) by simp
  have len: "vlength (vsub (vadd r (vmul u (2 - e))) r) = 2 - e"
    using assms(1) d0 by (simp add: vsub_vadd_cancel vlength_scaled_unit)
  have dir: "normalized (vsub (vadd r (vmul u (2 - e))) r) = u"
    using assms(1) d0 by (simp add: vsub_vadd_cancel normalized_scaled_unit)
  have clamp: "min (max (2 - e) (\<bar>1 - 1\<bar> + 1 / 1000)) (1 + 1 - 1 / 1000) = 1999 / 1000"
    using assms(2,3) by (simp add: min_def max_def)
  have big: "\<not> 2 - e < 1 / 1000000" using assms(3) by simp
  show ?thesis
    unfolding ik_joint_def Let_def len dir clamp
    using big by simp
qed

lemma two_bone_ik_unit_bones:
  assumes "bones_get pose_bones upper_name = Some upper" "bones_get pose_bones lower_name = Some lower"
    "bone_length upper = 1" "bone_length lower = 1"
    "dot u u = 1" "1 / 1000 \<le> d" "d \<le> 2 - 1 / 1000"
  shows "two_bone_ik offsets pose_bones r m (vadd r (vmul u d)) upper_name lower_name =
     (Returns (),
      set_bone_direction offsets
        (set_bone_direction offsets pose_bones r (vdiv (vadd r (vadd r (vmul u d))) 2) upper_name)
        (vdiv (vadd r (vadd r (vmul u d))) 2) (vadd r (vmul u d)) lower_name)"
  using assms(1-4) ik_joint_equal_lengths [OF assms(5-7), of r]
  by (simp add: two_bone_ik_def)

lemma two_bone_ik_unit_bones_no_error:
  assumes "bones_get pose_bones upper_name = Some upper" "bones_get pose_bones lower_name = Some lower"
    "bone_length upper = 1" "bone_length lower = 1"
  shows "fst (two_bone_ik offsets pose_bones r m t upper_name lower_name) = Returns ()"
  using assms ik_joint_unit_lengths_no_error [of r t]
  by (cases "ik_joint r t 1 1") (auto simp: two_bone_ik_def split: option.splits)

lemma direction_quat_x: "direction_quat (Vector 0 0 0) (Vector 1 0 0) = Some (Quaternion (sqrt 2 / 2) 0 0 (- (sqrt 2 / 2)))"
  by (simp add: direction_quat_def vsub_def vlength_def dot_def normalized_def vdiv_def cross_def
        angle_def quat_axis_angle_def Let_def cos_45 sin_45)

text \<open>
  C9. Take an upper and a lower bone of rest length 1 and a target at distance \<open>2 - e\<close>
  from the root along a unit vector \<open>u\<close>, for \<open>e\<close> from the clamp margin 0.001 of line 383
  up to 1. Then the joint position that \<open>two_bone_ik\<close> computes from the lengths of the two
  bones is the midpoint of root and target, and the solver returns with the upper bone
  set to point from the root to that midpoint and the lower bone from that midpoint to
  the target, both along \<open>u\<close>. With two such bones the solver raises nothing for any
  target, so the division of line 390 never fails. For a target at the root, with bones
  of any length, no joint is computed and all bones are left as they are. Floats are taken
  as reals; for \<open>e\<close> below the margin the clamp moves the joint off the midpoint
  (\<open>ik_joint_over_extended\<close>).
\<close>

theorem two_bone_ik_midpoint_and_rest:
  "(bones_get pose_bones upper_name = Some upper \<and> bones_get pose_bones lower_name = Some lower \<and>
    bone_length upper = 1 \<and> bone_length lower = 1 \<and>
    dot u u = 1 \<and> 1 / 1000 \<le> e \<and> e \<le> 1 \<longrightarrow>
      ik_joint r (vadd r (vmul u (2 - e))) (bone_length upper) (bone_length lower)
        = Returns (Some (vdiv (vadd r (vadd r (vmul u (2 - e)))) 2)) \<and>
      two_bone_ik offsets pose_bones r m (vadd r (vmul u (2 - e))) upper_name lower_name =
        (Returns (),
         set_bone_direction offsets
           (set_bone_direction offsets pose_bones r
              (vdiv (vadd r (vadd r (vmul u (2 - e)))) 2) upper_name)
           (vdiv (vadd r (vadd r (vmul u (2 - e)))) 2) (vadd r (vmul u (2 - e))) lower_name) \<and>
      direction_quat r (vdiv (vadd r (vadd r (vmul u (2 - e)))) 2)
        = direction_quat (Vector 0 0 0) u \<and>
      direction_quat (vdiv (vadd r (vadd r (vmul u (2 - e)))) 2) (vadd r (vmul u (2 - e)))
        = direction_quat (Vector 0 0 0) u) \<and>
   (bones_get pose_bones upper_name = Some upper \<and> bones_get pose_bones lower_name = Some lower \<and>
    bone_length upper = 1 \<and> bone_length lower = 1 \<longrightarrow>
      fst (two_bone_ik offsets pose_bones r m t upper_name lower_name) = Returns ()) \<and>
   ik_joint r r L1 L2 = Returns None \<and>
   two_bone_ik offsets pose_bones r m r upper_name lower_name = (Returns (), pose_bones)"
proof -
  have a: "ik_joint r (vadd r (vmul u (2 - e))) (bone_length upper) (bone_length lower)
        = Returns (Some (vdiv (vadd r (vadd r (vmul u (2 - e)))) 2))"
    if "bone_length upper = 1" "bone_length lower = 1" "dot u u = 1" "1 / 1000 \<le> e" "e \<le> 1"
    using that ik_joint_equal_lengths [of u "2 - e" r] by simp
  have b: "two_bone_ik offsets pose_bones r m (vadd r (vmul u (2 - e))) upper_name lower_name =
        (Returns (),
         set_bone_direction offsets
           (set_bone_direction offsets pose_bones r
              (vdiv (vadd r (vadd r (vmul u (2 - e)))) 2) upper_name)
           (vdiv (vadd r (vadd r (vmul u (2 - e)))) 2) (vadd r (vmul u (2 - e))) lower_name)"
    if "bones_get pose_bones upper_name = Some upper" "bones_get pose_bones lower_name = Some lower"
      "bone_length upper = 1" "bone_length lower = 1" "dot u u = 1" "1 / 1000 \<le> e" "e \<le> 1"
    using that two_bone_ik_unit_bones [of pose_bones upper_name upper lower_name lower u "2 - e" offsets r m]
    by simp
  have c: "direction_quat r (vdiv (vadd r (vadd r (vmul u (2 - e)))) 2)
        = direction_quat (Vector 0 0 0) u"
    if "dot u u = 1" "e \<le> 1"
    using that direction_quat_along [OF midpoint_from_root, of u "2 - e" r] by simp
  have d: "direction_quat (vdiv (vadd r (vadd r (vmul u (2 - e)))) 2) (vadd r (vmul u (2 - e)))
        = direction_quat (Vector 0 0 0) u"
    if "dot u u = 1" "e \<le> 1"
    using that direction_quat_along [OF target_from_midpoint, of u "2 - e" r] by simp
  have f: "fst (two_bone_ik offsets pose_bones r m t upper_name lower_name) = Returns ()"
    if "bones_get pose_bones upper_name = Some upper" "bones_get pose_bones lower_name = Some lower"
      "bone_length upper = 1" "bone_length lower = 1"
    using that by (rule two_bone_ik_unit_bones_no_error)
  have g: "two_bone_ik offsets pose_bones r m r upper_name lower_name = (Returns (), pose_bones)"
    by (simp add: two_bone_ik_def ik_joint_zero_distance split: option.splits)
  from a b c d f g ik_joint_zero_distance show ?thesis by blast
qed

text \<open>
  The two-bone arm, root at the origin: a target at 1.999 along x puts the joint at
  0.9995 and turns both bones by a quarter turn about \<open>-z\<close>; a target at the root leaves
  the arm at rest.
\<close>

theorem two_bone_ik_midpoint_and_rest_witness:
  "two_bone_ik Map.empty example_limb (Vector 0 0 0) (Vector 1 1 0) (Vector (1999 / 1000) 0 0)
      ''upper_arm'' ''forearm''
     = (Returns (),
        [example_bone\<lparr>name := ''upper_arm'', rotation_mode := ''QUATERNION'',
           rotation_quaternion := Quaternion (sqrt 2 / 2) 0 0 (- (sqrt 2 / 2))\<rparr>,
         example_bone\<lparr>name := ''forearm'', rotation_mode := ''QUATERNION'',
           rotation_quaternion := Quaternion (sqrt 2 / 2) 0 0 (- (sqrt 2 / 2))\<rparr>]) \<and>
   ik_joint (Vector 0 0 0) (Vector (1999 / 1000) 0 0) 1 1 = Returns (Some (Vector (1999 / 2000) 0 0)) \<and>
   ik_joint (Vector 0 0 0) (Vector 0 0 0) 1 1 = Returns None \<and>
   two_bone_ik Map.empty example_limb (Vector 0 0 0) (Vector 1 1 0) (Vector 0 0 0)
      ''upper_arm'' ''forearm''
     = (Returns (), example_limb)"
  using two_bone_ik_midpoint_and_rest
    [of example_limb "''upper_arm''" "example_bone\<lparr>name := ''upper_arm''\<rparr>" "''forearm''"
        "example_bone\<lparr>name := ''forearm''\<rparr>" "Vector 1 0 0" "1 / 1000" "Vector 0 0 0"
        Map.empty "Vector 1 1 0" "Vector 0 0 0" 1 1]
  by (simp add: example_limb_def example_bone_def dot_def vadd_def vmul_def vdiv_def
        set_bone_direction_def direction_quat_x)

subsection \<open>Facts about \<open>apply_mocap_data\<close>\<close>

lemma apply_mocap_data_returns: "fst (apply_mocap_data w armature_obj fr) = Returns ()"
  by (simp add: apply_mocap_data_def Let_def split: prod.splits)

text \<open>
  C5, as the code has it. When the target is not a valid armature, or pose mode cannot
  be set, \<open>apply_mocap_data\<close> prints an error, changes no bone and returns normally; and
  it returns normally on every input, so nothing tells the caller one case from the
  other and an apply call never ends the session.
\<close>

theorem rig_state_error_printed_not_returned:
  "(\<not> is_armature armature_obj \<longrightarrow>
      apply_mocap_data w armature_obj fr =
        (Returns (),
         w\<lparr>printed := printed w @ [''Error: Target object is not a valid Armature.'']\<rparr>,
         armature_obj)) \<and>
   (is_armature armature_obj \<and> mode (the armature_obj) \<noteq> ''POSE'' \<and> mode_set_fails w \<longrightarrow>
      apply_mocap_data w armature_obj fr =
        (Returns (),
         (make_active (the armature_obj) w)\<lparr>printed := printed w @
            [''Error: Could not set Pose Mode on armature. Aborting update.'']\<rparr>,
         armature_obj)) \<and>
   fst (apply_mocap_data w armature_obj fr) = Returns ()"
proof -
  have a: "\<not> is_armature armature_obj \<longrightarrow>
      apply_mocap_data w armature_obj fr =
        (Returns (),
         w\<lparr>printed := printed w @ [''Error: Target object is not a valid Armature.'']\<rparr>,
         armature_obj)"
    by (simp add: apply_mocap_data_def)
  have b: "is_armature armature_obj \<and> mode (the armature_obj) \<noteq> ''POSE'' \<and> mode_set_fails w \<longrightarrow>
      apply_mocap_data w armature_obj fr =
        (Returns (),
         (make_active (the armature_obj) w)\<lparr>printed := printed w @
            [''Error: Could not set Pose Mode on armature. Aborting update.'']\<rparr>,
         armature_obj)"
    by (simp add: apply_mocap_data_def Let_def make_active_def)
  from a b apply_mocap_data_returns show ?thesis by blast
qed

text \<open>
  No target, and an armature whose mode cannot be set.
\<close>

theorem rig_state_error_printed_not_returned_witness:
  "apply_mocap_data example_world None example_frame =
     (Returns (),
      example_world\<lparr>printed := [''Error: Target object is not a valid Armature.'']\<rparr>, None) \<and>
   apply_mocap_data (example_world\<lparr>mode_set_fails := True\<rparr>) (Some example_armature) example_frame =
     (Returns (),
      example_world\<lparr>mode_set_fails := True, active := Some ''Armature'',
        printed := [''Error: Could not set Pose Mode on armature. Aborting update.'']\<rparr>,
      Some example_armature)"
  using rig_state_error_printed_not_returned [of None example_world example_frame]
    rig_state_error_printed_not_returned
      [of "Some example_armature" "example_world\<lparr>mode_set_fails := True\<rparr>" example_frame]
  by (simp add: is_armature_def example_world_def example_armature_def make_active_def)

text \<open>
  C5 as stated fails: the call with no target and a call on a valid rig in pose mode
  give the caller the same plain return.
\<close>

theorem rig_state_error_counterexample:
  "fst (apply_mocap_data example_world None example_frame) = Returns () \<and>
   fst (apply_mocap_data example_world (Some (example_armature\<lparr>mode := ''POSE''\<rparr>)) example_frame)
     = Returns () \<and>
   snd (snd (apply_mocap_data example_world None example_frame)) = None"
  by (simp add: apply_mocap_data_returns) (simp add: apply_mocap_data_def is_armature_def)

subsection \<open>Facts about the start operator\<close>

lemma find_bone_in_names:
  assumes "set (set_iter pose_names) = set pose_names" "find_bone set_iter pose_names pattern = Some b"
  shows "b \<in> set pose_names"
proof (cases "pattern \<in> set pose_names")
  case True
  with assms(2) show ?thesis by (simp add: find_bone_def)
next
  case False
  with assms(2) have "find (\<lambda>bn. contains (str_lower (after_last_colon pattern)) (str_lower bn))
      (set_iter pose_names) = Some b"
    by (simp add: find_bone_def Let_def)
  then have "b \<in> set (set_iter pose_names)"
    by (auto simp: find_Some_iff)
  with assms(1) show ?thesis by simp
qed

lemma auto_entries_sound:
  assumes "set (set_iter pose_names) = set pose_names"
  shows "list_all (\<lambda>(m, b). m \<in> fst ` set wanted \<and> b \<in> set pose_names)
           (auto_entries set_iter pose_names)"
proof -
  have "(m, b) \<in> set (auto_entries set_iter pose_names) \<Longrightarrow>
        m \<in> fst ` set wanted \<and> b \<in> set pose_names" for m b
  proof -
    assume "(m, b) \<in> set (auto_entries set_iter pose_names)"
    then obtain pattern where p: "(m, pattern) \<in> set wanted" "truthy (find_bone set_iter pose_names pattern)"
        "b = the (find_bone set_iter pose_names pattern)"
      by (auto simp: auto_entries_def split: if_splits)
    from p(2,3) have "find_bone set_iter pose_names pattern = Some b"
      by (cases "find_bone set_iter pose_names pattern") auto
    with assms have "b \<in> set pose_names"
      by (rule find_bone_in_names)
    with p(1) show ?thesis by force
  qed
  then show ?thesis
    by (auto simp: list_all_iff)
qed

lemma execute_mapping:
  assumes "\<not> is_running w" "is_armature (target_armature (select_armature w))"
  shows "mapping_collection (snd (execute set_iter start_ok w)) =
         auto_entries set_iter (map name (bones (the (target_armature (select_armature w)))))"
proof -
  from assms(2) obtain a where a: "target_armature (select_armature w) = Some a"
    by (cases "target_armature (select_armature w)") (auto simp: is_armature_def)
  show ?thesis
    using assms a by (simp add: execute_def Let_def auto_map_mixamorig_def)
qed

lemma select_armature_mapping [simp]:
  "target_armature (select_armature (w\<lparr>mapping_collection := other\<rparr>)) = target_armature (select_armature w)"
  by (simp add: select_armature_def split: option.splits)

lemma auto_entries_example: "auto_entries remdups [''spine''] = [(''Spine'', ''spine'')]"
  by code_simp

text \<open>
  C10, as the code has it. When no stream is running and the target (set, or
  auto-selected) is an armature, the mapping collection after \<open>execute\<close> is the list of
  auto-mapped entries, whatever it held before, and each entry pairs a joint of
  \<open>wanted\<close> with a pose bone of that armature.
\<close>

theorem start_capture_replaces_mappings:
  assumes "\<not> is_running w" "is_armature (target_armature (select_armature w))"
    and "set (set_iter (map name (bones (the (target_armature (select_armature w)))))) =
         set (map name (bones (the (target_armature (select_armature w)))))"
  shows "mapping_collection (snd (execute set_iter start_ok w)) =
           auto_entries set_iter (map name (bones (the (target_armature (select_armature w))))) \<and>
         mapping_collection (snd (execute set_iter start_ok (w\<lparr>mapping_collection := other\<rparr>))) =
           mapping_collection (snd (execute set_iter start_ok w)) \<and>
         list_all (\<lambda>(m, b). m \<in> fst ` set wanted \<and>
                     b \<in> set (map name (bones (the (target_armature (select_armature w))))))
           (mapping_collection (snd (execute set_iter start_ok w)))"
proof -
  have a: "mapping_collection (snd (execute set_iter start_ok w)) =
           auto_entries set_iter (map name (bones (the (target_armature (select_armature w)))))"
    using assms(1,2) by (rule execute_mapping)
  have b: "mapping_collection (snd (execute set_iter start_ok (w\<lparr>mapping_collection := other\<rparr>))) =
           auto_entries set_iter (map name (bones (the (target_armature (select_armature w)))))"
    using execute_mapping [of "w\<lparr>mapping_collection := other\<rparr>" set_iter start_ok] assms(1,2)
    by simp
  have c: "list_all (\<lambda>(m, b). m \<in> fst ` set wanted \<and>
                     b \<in> set (map name (bones (the (target_armature (select_armature w))))))
             (auto_entries set_iter (map name (bones (the (target_armature (select_armature w))))))"
    using assms(3)
    by (rule auto_entries_sound
          [of set_iter "map name (bones (the (target_armature (select_armature w))))"])
  from a b c show ?thesis by simp
qed

text \<open>
  The example rig with a user mapping, with the target set and with the target
  auto-selected.
\<close>

theorem start_capture_replaces_mappings_witness:
  "mapping_collection
     (snd (execute remdups True (example_world\<lparr>mapping_collection := [(''Custom'', ''spine'')]\<rparr>)))
     = [(''Spine'', ''spine'')] \<and>
   mapping_collection
     (snd (execute remdups True
        (example_world\<lparr>target_armature := None, mapping_collection := [(''Custom'', ''spine'')]\<rparr>)))
     = [(''Spine'', ''spine'')]"
  using start_capture_replaces_mappings
      [of "example_world\<lparr>mapping_collection := [(''Custom'', ''spine'')]\<rparr>" remdups True "[]"]
    start_capture_replaces_mappings
      [of "example_world\<lparr>target_armature := None, mapping_collection := [(''Custom'', ''spine'')]\<rparr>"
          remdups True "[]"]
  by (simp add: example_world_def example_armature_def example_bone_def select_armature_def
        is_armature_def auto_entries_example)

text \<open>
  C10 as stated fails: with a stream already running, \<open>execute\<close> is cancelled before the
  auto-mapping and the user mapping stays.
\<close>

theorem start_capture_counterexample:
  "execute remdups True
     (example_world\<lparr>is_running := True, mapping_collection := [(''Custom'', ''spine'')]\<rparr>)
     = (CANCELLED, example_world\<lparr>is_running := True, mapping_collection := [(''Custom'', ''spine'')]\<rparr>) \<and>
   target_armature (example_world\<lparr>is_running := True, mapping_collection := [(''Custom'', ''spine'')]\<rparr>)
     = Some example_armature \<and>
   mapping_collection (snd (execute remdups True
     (example_world\<lparr>is_running := True, mapping_collection := [(''Custom'', ''spine'')]\<rparr>)))
     = [(''Custom'', ''spine'')]"
  by (simp add: execute_def example_world_def)

end
